theory Spec2Isabelle
  imports Main
begin

section \<open>JavaScript strings and values\<close>

text \<open>
  A JavaScript string is modelled by its UTF-8 encoding: a \<open>string\<close> whose characters are
  bytes.  Concatenation and equality of well-formed strings are those of the byte strings.
  The letters outside ASCII that the messages and the title list of \<open>static/app.js\<close> use
  are named here.
\<close>

definition a_acute :: string where "a_acute = [CHR 0xC3, CHR 0xA1]"
definition e_acute :: string where "e_acute = [CHR 0xC3, CHR 0xA9]"
definition i_acute :: string where "i_acute = [CHR 0xC3, CHR 0xAD]"
definition o_acute :: string where "o_acute = [CHR 0xC3, CHR 0xB3]"
definition u_acute :: string where "u_acute = [CHR 0xC3, CHR 0xBA]"
definition n_tilde :: string where "n_tilde = [CHR 0xC3, CHR 0xB1]"
definition zwsp :: string where "zwsp = [CHR 0xE2, CHR 0x80, CHR 0x8B]"
definition newline :: string where "newline = [CHR 0x0A]"
definition apostrophe :: string where "apostrophe = [CHR 0x27]"

text \<open>
  The scalar values that reach the controller: a field of a parsed JSON reply may be absent
  (\<open>undefined\<close>), \<open>null\<close>, a boolean, an integer or a string; \<open>parseInt\<close> may give
  \<open>NaN\<close>.
\<close>

datatype jsval = JUndefined | JNull | JBool bool | JNum int | JNaN | JStr string

fun truthy :: "jsval \<Rightarrow> bool" where
  "truthy JUndefined = False"
| "truthy JNull = False"
| "truthy (JBool b) = b"
| "truthy (JNum n) = (n \<noteq> 0)"
| "truthy JNaN = False"
| "truthy (JStr s) = (s \<noteq> [])"

text \<open>The operator \<open>a || b\<close>.\<close>

definition js_or :: "jsval \<Rightarrow> jsval \<Rightarrow> jsval" where
  "js_or a b = (if truthy a then a else b)"

definition digit_char :: "nat \<Rightarrow> char" where
  "digit_char d = ''0123456789'' ! d"

fun show_nat :: "nat \<Rightarrow> string" where
  "show_nat n = (if n < 10 then [digit_char n] else show_nat (n div 10) @ [digit_char (n mod 10)])"

declare show_nat.simps [simp del]

definition show_int :: "int \<Rightarrow> string" where
  "show_int i = (if i < 0 then CHR ''-'' # show_nat (nat (- i)) else show_nat (nat i))"

text \<open>
  JavaScript numbers are doubles.  \<open>JNum n\<close> stands for the number \<open>n\<close>, which is
  represented exactly when \<open>n\<close> is a safe integer (\<open>Number.isSafeInteger\<close>: at most
  \<open>2^53 - 1\<close> in absolute value); such a number is printed in plain decimal.  Beyond
  that range JavaScript rounds to a double and prints the shortest digits that read back as
  it, in exponent form from \<open>10^21\<close> on; \<open>number_text\<close> leaves that text unspecified,
  so that nothing is proved about it.  Numbers with a fractional part, and the infinities,
  are not represented.
\<close>

definition safe_integer :: "int \<Rightarrow> bool" where
  "safe_integer n = (- 9007199254740991 \<le> n \<and> n \<le> 9007199254740991)"

definition number_text :: "int \<Rightarrow> string" where
  "number_text n = (if safe_integer n then show_int n else undefined)"

text \<open>\<open>ToString\<close>, as string concatenation and template literals apply it.\<close>

fun ToString :: "jsval \<Rightarrow> string" where
  "ToString JUndefined = ''undefined''"
| "ToString JNull = ''null''"
| "ToString (JBool b) = (if b then ''true'' else ''false'')"
| "ToString (JNum n) = number_text n"
| "ToString JNaN = ''NaN''"
| "ToString (JStr s) = s"

text \<open>
  \<open>String.prototype.trim\<close> removes the code points of \<open>WhiteSpace\<close> and
  \<open>LineTerminator\<close> from both ends; \<open>white_space\<close> lists their UTF-8 encodings.
\<close>

definition white_space :: "string list" where
  "white_space =
    [[CHR 0x09], [CHR 0x0A], [CHR 0x0B], [CHR 0x0C], [CHR 0x0D], [CHR 0x20],
     [CHR 0xC2, CHR 0xA0], [CHR 0xE1, CHR 0x9A, CHR 0x80],
     [CHR 0xE2, CHR 0x80, CHR 0x80], [CHR 0xE2, CHR 0x80, CHR 0x81],
     [CHR 0xE2, CHR 0x80, CHR 0x82], [CHR 0xE2, CHR 0x80, CHR 0x83],
     [CHR 0xE2, CHR 0x80, CHR 0x84], [CHR 0xE2, CHR 0x80, CHR 0x85],
     [CHR 0xE2, CHR 0x80, CHR 0x86], [CHR 0xE2, CHR 0x80, CHR 0x87],
     [CHR 0xE2, CHR 0x80, CHR 0x88], [CHR 0xE2, CHR 0x80, CHR 0x89],
     [CHR 0xE2, CHR 0x80, CHR 0x8A], [CHR 0xE2, CHR 0x80, CHR 0xA8],
     [CHR 0xE2, CHR 0x80, CHR 0xA9], [CHR 0xE2, CHR 0x80, CHR 0xAF],
     [CHR 0xE2, CHR 0x81, CHR 0x9F], [CHR 0xE3, CHR 0x80, CHR 0x80],
     [CHR 0xEF, CHR 0xBB, CHR 0xBF]]"

definition startsWith :: "string \<Rightarrow> string \<Rightarrow> bool" where
  "startsWith s w = (take (length w) s = w)"

definition endsWith :: "string \<Rightarrow> string \<Rightarrow> bool" where
  "endsWith s w = (length w \<le> length s \<and> drop (length s - length w) s = w)"

function strip_units :: "string list \<Rightarrow> string \<Rightarrow> string" where
  "strip_units us s =
     (case find (\<lambda>w. w \<noteq> [] \<and> startsWith s w) us of
        None \<Rightarrow> s
      | Some w \<Rightarrow> strip_units us (drop (length w) s))"
  by pat_completeness auto
termination
proof (relation "measure (\<lambda>(us, s). length s)")
  show "wf (measure (\<lambda>(us, s). length s))" by simp
next
  fix us :: "string list" and s w :: string
  assume "find (\<lambda>w. w \<noteq> [] \<and> startsWith s w) us = Some w"
  then have "w \<noteq> []" and "take (length w) s = w"
    by (auto simp: find_Some_iff startsWith_def)
  then have "s \<noteq> []" by auto
  with \<open>w \<noteq> []\<close> show "((us, drop (length w) s), (us, s)) \<in> measure (\<lambda>(us, s). length s)"
    by simp
qed

declare strip_units.simps [simp del]

definition trimStart :: "string \<Rightarrow> string" where
  "trimStart s = strip_units white_space s"

definition trimEnd :: "string \<Rightarrow> string" where
  "trimEnd s = rev (strip_units (map rev white_space) (rev s))"

definition trim :: "string \<Rightarrow> string" where
  "trim s = trimEnd (trimStart s)"

text \<open>
  \<open>toLowerCase\<close> on the ASCII letters.  The only use is the test
  \<open>f.name.toLowerCase().endsWith(".docx")\<close>, and no code point outside ASCII lower-cases
  to one of the five characters of \<open>.docx\<close>, so the test is decided by this part.
\<close>

definition lower_char :: "char \<Rightarrow> char" where
  "lower_char c =
     (case map_of (zip ''ABCDEFGHIJKLMNOPQRSTUVWXYZ'' ''abcdefghijklmnopqrstuvwxyz'') c of
        Some d \<Rightarrow> d
      | None \<Rightarrow> c)"

definition toLowerCase :: "string \<Rightarrow> string" where
  "toLowerCase s = map lower_char s"

text \<open>
  \<open>parseInt(s, 10)\<close>: leading white space, an optional sign, then the longest run of
  decimal digits; \<open>NaN\<close> when there is none.  The value is exact when it is a safe
  integer.  For a longer run of digits JavaScript gives a double near the value (which one
  is left to the implementation after the 20th digit), or an infinity; the definition keeps
  the exact value there.  The result reaches only the \<open>level\<close> member of the merge
  request.
\<close>

definition is_digit :: "char \<Rightarrow> bool" where
  "is_digit c = (48 \<le> (of_char c :: nat) \<and> (of_char c :: nat) \<le> 57)"

definition digits_value :: "string \<Rightarrow> nat" where
  "digits_value ds = foldl (\<lambda>a c. 10 * a + ((of_char c :: nat) - 48)) 0 ds"

definition parseInt :: "string \<Rightarrow> jsval" where
  "parseInt s =
     (let t = trimStart s;
          neg = (t \<noteq> [] \<and> hd t = CHR ''-'');
          r = (if t \<noteq> [] \<and> (hd t = CHR ''-'' \<or> hd t = CHR ''+'') then tl t else t);
          ds = takeWhile is_digit r
      in if ds = [] then JNaN
         else JNum (if neg then - int (digits_value ds) else int (digits_value ds)))"

text \<open>
  \<open>encodeURIComponent\<close> on the UTF-8 bytes: the unreserved characters stay, every other
  byte becomes \<open>%XX\<close>.
\<close>

definition uri_unreserved :: "char \<Rightarrow> bool" where
  "uri_unreserved c =
     (c \<in> set ''ABCDEFGHIJKLMNOPQRSTUVWXYZabcdefghijklmnopqrstuvwxyz0123456789-_.!~*()''
      \<or> c = CHR 0x27)"

definition hex_char :: "nat \<Rightarrow> char" where
  "hex_char d = ''0123456789ABCDEF'' ! d"

definition encodeURIComponent :: "string \<Rightarrow> string" where
  "encodeURIComponent s =
     concat (map (\<lambda>c. if uri_unreserved c then [c]
                        else [CHR ''%'', hex_char ((of_char c :: nat) div 16),
                              hex_char ((of_char c :: nat) mod 16)]) s)"

section \<open>Data model\<close>

text \<open>
  \<open>FileMeta\<close>: one entry \<open>{name, count, titles}\<close> of a scan reply's \<open>files_meta\<close>.
  A \<open>File\<close> of a file input is its name and its content.
\<close>

datatype file_meta = FileMeta (fm_name: string) (fm_count: int) (fm_titles: "string list")

datatype jsfile = File (file_name: string) (file_bytes: string)

text \<open>
  The parsed JSON body of a reply, \<open>js\<close> in the source.  The scalar members are
  \<open>JUndefined\<close> when absent; the two arrays are \<open>None\<close> when absent.
\<close>

record json_reply =
  js_ok :: jsval
  js_error :: jsval
  js_token :: jsval
  js_count :: jsval
  js_files_meta :: "file_meta list option"
  js_titles :: "string list option"

text \<open>
  A \<open>Response\<close>, \<open>res\<close> in the source: \<open>res_json\<close> is \<open>None\<close> when the body is not
  JSON (\<open>res.json()\<close> rejects), \<open>res_blob\<close> is the body as \<open>res.blob()\<close> gives it.
  \<open>res.status\<close> is an unsigned short, below \<open>65536\<close>.
\<close>

record response =
  res_status :: nat
  res_statusText :: string
  res_json :: "json_reply option"
  res_blob :: string

definition res_ok :: "response \<Rightarrow> bool" where
  "res_ok res = (200 \<le> res_status res \<and> res_status res \<le> 299)"

text \<open>
  Request bodies.  An object literal is the list of its members in insertion order;
  \<open>set_field\<close> is the assignment \<open>payload.k = v\<close>; \<open>JSON_stringify\<close> is
  \<open>JSON.stringify\<close> up to the text it prints: a member that is \<open>undefined\<close> is left out
  and \<open>NaN\<close> is written \<open>null\<close>.
\<close>

datatype jsmember = Scalar jsval | Strings "string list"

type_synonym jsobject = "(string \<times> jsmember) list"

fun set_field :: "string \<Rightarrow> jsmember \<Rightarrow> jsobject \<Rightarrow> jsobject" where
  "set_field k v [] = [(k, v)]"
| "set_field k v ((k', v') # ps) =
     (if k' = k then (k, v) # ps else (k', v') # set_field k v ps)"

definition JSON_stringify :: "jsobject \<Rightarrow> jsobject" where
  "JSON_stringify obj =
     map (\<lambda>(k, v). (k, if v = Scalar JNaN then Scalar JNull else v))
       (filter (\<lambda>(k, v). v \<noteq> Scalar JUndefined) obj)"

definition get_field :: "jsobject \<Rightarrow> string \<Rightarrow> jsmember option" where
  "get_field obj k = map_of obj k"

definition has_field :: "jsobject \<Rightarrow> string \<Rightarrow> bool" where
  "has_field obj k = (get_field obj k \<noteq> None)"

datatype form_entry = FormText string | FormFile jsfile

type_synonym form_data = "(string \<times> form_entry) list"

datatype body = JsonBody jsobject | FormBody form_data

datatype request = Post (req_url: string) (req_body: body)

text \<open>
  The rows of \<open>#files-table\<close>: the placeholder row, or a file's row with the values that
  \<open>drawFilesTable\<close> puts into its markup.
\<close>

datatype table_row =
    Placeholder
  | FileRow (row_name: string) (row_badge_class: string) (row_count: int) (row_data_name: string)

text \<open>
  An \<open>async\<close> handler runs up to its \<open>await fetch(...)\<close> when the event fires and goes
  on when the reply arrives; other handlers may run in between.  The part that goes on is a
  \<open>continuation\<close> (the merge handler's keeps its local \<open>mode\<close>).  A scan handler
  awaits twice, \<open>fetch\<close> and then \<open>res.json()\<close>, and touches no state in between, so
  its continuation is one step.  An exception that leaves a handler is a \<open>js_error\<close>.
\<close>

datatype continuation =
    AfterScanFolder | AfterScanUpload | AfterScanUploadDir | AfterMerge string | AfterCleanup

datatype js_error = SyntaxError | TypeError

section \<open>The state of the page\<close>

text \<open>
  The module variables (\<open>uploadToken\<close>, \<open>lastSource\<close>, \<open>lastFilesMeta\<close>), the
  parts of the document that the handlers read and write, and three traces: the requests
  given to \<open>fetch\<close>, the continuations waiting for a reply, and the rejections that left
  a handler.  \<open>downloads\<close> records each \<open>a.click()\<close> of the merge handler with the
  name and the content it saves.  Both variants of \<open>static/app.js\<close> share these fields.

  The document itself is not part of the sources.  The model takes it to hold every element
  the script queries and one checked radio button \<open>mode\<close>, whose value is
  \<open>mode_radio\<close>.  The scroll position of the log and the preview dialog
  (\<open>showPreview\<close>) are left out: no handler below reads them.
\<close>

record page =
  uploadToken :: jsval
  lastSource :: string
  lastFilesMeta :: "file_meta list"
  log_text :: string
  folder_field :: string
  include_subs :: bool
  use_all :: bool
  mode_radio :: string
  files_input :: "jsfile list"
  badge_archivos :: string
  files_table :: "table_row list"
  sent :: "request list"
  pending :: "continuation list"
  unhandled :: "js_error list"
  downloads :: "(string \<times> string) list"

text \<open>Variant 1 adds the second token, the fixed title list \<open>#whitelist\<close> and \<open>#folderInput\<close>.\<close>

record page_v1 = page +
  uploadDirToken :: jsval
  whitelist_options :: "(string \<times> bool) list"
  folderInput_files :: "jsfile list"

text \<open>Variant 2 adds \<open>#level\<close>, the title list \<open>#titles\<close> and \<open>#badge-titulos\<close>.\<close>

record page_v2 = page +
  level_field :: string
  titles_options :: "(string \<times> bool) list"
  badge_titulos :: string

section \<open>Functions shared by both variants\<close>

text \<open>The messages that the handlers write to the log panel.\<close>

definition msg_select_title :: string where
  "msg_select_title =
     ''Selecciona al menos un t'' @ i_acute @ ''tulo o marca '' @ apostrophe @ ''Usar todos''
     @ apostrophe @ ''.''"

definition msg_enter_folder :: string where
  "msg_enter_folder = ''Ingresa la ruta de la carpeta.''"

definition msg_scan_files_first :: string where
  "msg_scan_files_first = ''Primero sube y escanea archivos.''"

definition msg_scan_folder_first :: string where
  "msg_scan_folder_first = ''Primero sube y escanea la carpeta.''"

definition msg_nothing_to_clean :: string where
  "msg_nothing_to_clean = ''No hay subidas por limpiar.''"

definition msg_cleaned :: string where
  "msg_cleaned = ''Subidas temporales limpiadas.''"

definition msg_level_changed :: string where
  "msg_level_changed = ''Nivel cambiado: vuelve a Escanear t'' @ i_acute @ ''tulos.''"

definition log :: "string \<Rightarrow> 'a page_scheme \<Rightarrow> 'a page_scheme" where
  "log m s = s\<lparr>log_text := log_text s @ m @ newline\<rparr>"

definition fetch :: "request \<Rightarrow> continuation \<Rightarrow> 'a page_scheme \<Rightarrow> 'a page_scheme" where
  "fetch req k s = s\<lparr>sent := sent s @ [req], pending := pending s @ [k]\<rparr>"

definition reject :: "js_error \<Rightarrow> 'a page_scheme \<Rightarrow> 'a page_scheme" where
  "reject e s = s\<lparr>unhandled := unhandled s @ [e]\<rparr>"

definition file_row :: "file_meta \<Rightarrow> table_row" where
  "file_row f =
     FileRow (fm_name f) (if fm_count f > 0 then ''bg-primary'' else ''bg-secondary'')
       (fm_count f) (encodeURIComponent (fm_name f))"

definition drawFilesTable :: "file_meta list \<Rightarrow> 'a page_scheme \<Rightarrow> 'a page_scheme" where
  "drawFilesTable filesMeta s =
     (if filesMeta = [] then s\<lparr>files_table := [Placeholder]\<rparr>
      else s\<lparr>files_table := map file_row filesMeta\<rparr>)"

definition deselect_all :: "(string \<times> bool) list \<Rightarrow> (string \<times> bool) list" where
  "deselect_all opts = map (\<lambda>(v, sel). (v, False)) opts"

definition selected_values :: "(string \<times> bool) list \<Rightarrow> string list" where
  "selected_values opts = map fst (filter snd opts)"

definition fill_options :: "string list \<Rightarrow> (string \<times> bool) list" where
  "fill_options ts = map (\<lambda>t. (t, False)) ts"

definition files_meta_or_empty :: "json_reply \<Rightarrow> file_meta list" where
  "files_meta_or_empty js = (case js_files_meta js of None \<Rightarrow> [] | Some m \<Rightarrow> m)"

definition error_line :: "jsval \<Rightarrow> response \<Rightarrow> string" where
  "error_line err res = ''ERROR: '' @ ToString (js_or err (JNum (int (res_status res))))"

text \<open>
  The end of \<open>mergeNow\<close>, the same in both variants: the request, and the continuation
  that saves the ZIP or logs the error.
\<close>

definition send_merge :: "string \<Rightarrow> jsobject \<Rightarrow> 'a page_scheme \<Rightarrow> 'a page_scheme" where
  "send_merge mode payload s =
     fetch (Post ''/api/merge'' (JsonBody (JSON_stringify payload))) (AfterMerge mode)
       (log ''Generando ZIP...'' s)"

definition mergeNow_resume :: "string \<Rightarrow> response \<Rightarrow> 'a page_scheme \<Rightarrow> 'a page_scheme" where
  "mergeNow_resume mode res s =
     (if \<not> res_ok res then
        (let err = (case res_json res of
                      None \<Rightarrow> JStr (res_statusText res)
                    | Some js \<Rightarrow> js_error js)
         in log (error_line err res) s)
      else
        log ''Descarga iniciada.''
          (s\<lparr>downloads := downloads s @
              [(if mode = ''unificado'' then ''unificado.zip'' else ''por_titulo.zip'',
                res_blob res)]\<rparr>))"

section \<open>Variant 1: the fixed title list\<close>

definition TITULOS_WHITELIST :: "string list" where
  "TITULOS_WHITELIST =
    [''1. Introducci'' @ o_acute @ ''n'' @ zwsp,
     ''2. Diagn'' @ o_acute @ ''stico estrat'' @ e_acute @ ''gico'',
     ''3. Misi'' @ o_acute @ ''n, visi'' @ o_acute @ ''n y valores de la carrera'',
     ''01. Plan de formaci'' @ o_acute @ ''n integral del estudiante'',
     ''06. Plan de admisi'' @ o_acute @ ''n, acogida y acompa'' @ n_tilde @ ''amiento acad'' @ e_acute @ ''mico de estudiantes'',
     ''23. Plan de seguimiento y mejora de indicadores del perfil docente'',
     ''25. Plan de formaci'' @ o_acute @ ''n integral del docente'',
     ''26. Plan de mejora del proceso de evaluaci'' @ o_acute @ ''n integral docente '',
     ''03. Plan implantaci'' @ o_acute @ ''n del marco de competencias UTPL'',
     ''04. Plan de prospectiva y creaci'' @ o_acute @ ''n de nueva oferta'',
     ''07. Plan de acciones curriculares para el fortalecimiento de las competencias gen'' @ e_acute @ ''ricas'',
     ''11. Plan de fortalecimiento de pr'' @ a_acute @ ''cticas preprofesionales y proyectos de vinculaci'' @ o_acute @ ''n'',
     ''12. Plan de fortalecimiento de criterios para la evaluaci'' @ o_acute @ ''n de la calidad de carreras y programas acad'' @ e_acute @ ''micos'',
     ''13. Plan de acciones curriculares para el fortalecimiento de la empleabilidad del graduado UTPL'',
     ''16. Plan de mejora del proceso de elaboraci'' @ o_acute @ ''n y seguimiento de planes docentes'',
     ''18. Plan de mejora de ambientes de aprendizaje'',
     ''19. Plan de mejora de evaluaci'' @ o_acute @ ''n de los aprendizajes'',
     ''20. Plan de mejora del proceso de integraci'' @ o_acute @ ''n curricular'',
     ''21. Plan de mejora del proceso de titulaci'' @ o_acute @ ''n'',
     ''22. Plan de seguimiento y mejora de la labor tutorial'',
     ''08. Plan de internacionalizaci'' @ o_acute @ ''n del curr'' @ i_acute @ ''culo'',
     ''24. Plan de intervenci'' @ o_acute @ ''n de personal acad'' @ e_acute @ ''mico en territorio'',
     ''05. Plan de acciones acad'' @ e_acute @ ''micas orientadas a la comunicaci'' @ o_acute @ ''n y promoci'' @ o_acute @ ''n de la oferta'',
     ''09. Plan de innovaci'' @ o_acute @ ''n educativa'',
     ''10. Plan de implantaci'' @ o_acute @ ''n de metodolog'' @ i_acute @ ''as activas en el curr'' @ i_acute @ ''culo'',
     ''28. Plan de formaci'' @ o_acute @ ''n de l'' @ i_acute @ ''deres acad'' @ e_acute @ ''micos '',
     ''29. Plan de posicionamiento institucional en innovaci'' @ o_acute @ ''n educativa'',
     ''30. Plan de investigaci'' @ o_acute @ ''n sobre innovaci'' @ o_acute @ ''n educativa, EaD, MP'']"

definition setBadges_v1 :: "jsval \<Rightarrow> 'a page_scheme \<Rightarrow> 'a page_scheme" where
  "setBadges_v1 filesCount s =
     s\<lparr>badge_archivos :=
         ToString filesCount @ '' archivo'' @ (if filesCount = JNum 1 then [] else ''s'')\<rparr>"

definition fillWhitelist :: "page_v1 \<Rightarrow> page_v1" where
  "fillWhitelist s = s\<lparr>whitelist_options := fill_options TITULOS_WHITELIST\<rparr>"

definition scanFolder_v1 :: "page_v1 \<Rightarrow> page_v1" where
  "scanFolder_v1 s =
     (let s1 = s\<lparr>lastSource := ''folder'', uploadToken := JNull, uploadDirToken := JNull\<rparr>;
          s2 = s1\<lparr>whitelist_options := deselect_all (whitelist_options s1)\<rparr>;
          s3 = setBadges_v1 (JNum 0) (drawFilesTable [] s2);
          s4 = log ''Escaneando carpeta en servidor...'' s3;
          body = [(''folder'', Scalar (JStr (trim (folder_field s4)))),
                  (''include_subs'', Scalar (JBool (include_subs s4))),
                  (''whitelist'', Strings TITULOS_WHITELIST)]
      in fetch (Post ''/api/scan-folder'' (JsonBody (JSON_stringify body))) AfterScanFolder s4)"

definition scanFolder_v1_resume :: "response \<Rightarrow> page_v1 \<Rightarrow> page_v1" where
  "scanFolder_v1_resume res s =
     (case res_json res of
        None \<Rightarrow> reject SyntaxError s
      | Some js \<Rightarrow>
          if \<not> truthy (js_ok js) then log (error_line (js_error js) res) s
          else
            (let s1 = s\<lparr>lastFilesMeta := files_meta_or_empty js\<rparr>;
                 s2 = setBadges_v1 (js_or (js_count js) (JNum 0)) s1;
                 s3 = drawFilesTable (lastFilesMeta s2) s2
             in log (''Archivos: '' @ ToString (js_count js) @ '' | t'' @ i_acute
                     @ ''tulos totales en whitelist: '' @ show_nat (length TITULOS_WHITELIST)) s3))"

definition scanUpload_v1 :: "page_v1 \<Rightarrow> page_v1" where
  "scanUpload_v1 s =
     (let s1 = s\<lparr>lastSource := ''upload'', uploadDirToken := JNull\<rparr>;
          s2 = s1\<lparr>whitelist_options := deselect_all (whitelist_options s1)\<rparr>;
          s3 = setBadges_v1 (JNum 0) (drawFilesTable [] s2);
          files = files_input s3
      in if files = [] then log ''Selecciona .docx primero.'' s3
         else
           (let s4 = log (''Subiendo '' @ show_nat (length files) @ '' archivo(s)...'') s3;
                fd = map (\<lambda>t. (''whitelist[]'', FormText t)) TITULOS_WHITELIST
                     @ map (\<lambda>f. (''files'', FormFile f)) files
            in fetch (Post ''/api/scan-upload'' (FormBody fd)) AfterScanUpload s4))"

definition scanUpload_v1_resume :: "response \<Rightarrow> page_v1 \<Rightarrow> page_v1" where
  "scanUpload_v1_resume res s =
     (case res_json res of
        None \<Rightarrow> reject SyntaxError s
      | Some js \<Rightarrow>
          if \<not> truthy (js_ok js) then log (error_line (js_error js) res) s
          else
            (let s1 = s\<lparr>uploadToken := js_token js\<rparr>;
                 s2 = s1\<lparr>lastFilesMeta := files_meta_or_empty js\<rparr>;
                 s3 = setBadges_v1 (js_or (js_count js) (JNum 0)) s2;
                 s4 = drawFilesTable (lastFilesMeta s3) s3
             in log (''Token: '' @ ToString (uploadToken s4) @ '' | Archivos: ''
                     @ ToString (js_count js)) s4))"

definition scanUploadDir_v1 :: "page_v1 \<Rightarrow> page_v1" where
  "scanUploadDir_v1 s =
     (let s1 = s\<lparr>lastSource := ''upload_dir'', uploadToken := JNull\<rparr>;
          s2 = s1\<lparr>whitelist_options := deselect_all (whitelist_options s1)\<rparr>;
          s3 = setBadges_v1 (JNum 0) (drawFilesTable [] s2);
          files = folderInput_files s3
      in if files = [] then log ''Selecciona una carpeta con .docx.'' s3
         else
           (let s4 = log (''Subiendo carpeta con '' @ show_nat (length files)
                          @ '' archivo(s)...'') s3;
                fd = map (\<lambda>t. (''whitelist[]'', FormText t)) TITULOS_WHITELIST
                     @ map (\<lambda>f. (''files'', FormFile f))
                         (filter (\<lambda>f. endsWith (toLowerCase (file_name f)) ''.docx'') files)
            in fetch (Post ''/api/scan-upload'' (FormBody fd)) AfterScanUploadDir s4))"

definition scanUploadDir_v1_resume :: "response \<Rightarrow> page_v1 \<Rightarrow> page_v1" where
  "scanUploadDir_v1_resume res s =
     (case res_json res of
        None \<Rightarrow> reject SyntaxError s
      | Some js \<Rightarrow>
          if \<not> truthy (js_ok js) then log (error_line (js_error js) res) s
          else
            (let s1 = s\<lparr>uploadDirToken := js_token js\<rparr>;
                 s2 = s1\<lparr>lastFilesMeta := files_meta_or_empty js\<rparr>;
                 s3 = setBadges_v1 (js_or (js_count js) (JNum 0)) s2;
                 s4 = drawFilesTable (lastFilesMeta s3) s3
             in log (''Token: '' @ ToString (uploadDirToken s4) @ '' | Archivos: ''
                     @ ToString (js_count js)) s4))"

definition mergeNow_v1 :: "page_v1 \<Rightarrow> page_v1" where
  "mergeNow_v1 s =
     (let mode = mode_radio s;
          selected = (if \<not> use_all s then selected_values (whitelist_options s)
                      else TITULOS_WHITELIST)
      in if \<not> use_all s \<and> selected = [] then
           log msg_select_title s
         else
           (let payload = [(''source'', Scalar (JStr (lastSource s))),
                           (''mode'', Scalar (JStr mode)),
                           (''titles'', Strings selected)]
            in if lastSource s = ''folder'' then
                 (let folder = trim (folder_field s)
                  in if folder = [] then log msg_enter_folder s
                     else send_merge mode
                            (set_field ''include_subs'' (Scalar (JBool (include_subs s)))
                               (set_field ''folder'' (Scalar (JStr folder)) payload)) s)
               else if lastSource s = ''upload'' then
                 (if \<not> truthy (uploadToken s) then log msg_scan_files_first s
                  else send_merge mode
                         (set_field ''token'' (Scalar (uploadToken s)) payload) s)
               else
                 (if \<not> truthy (uploadDirToken s) then
                    log msg_scan_folder_first s
                  else send_merge mode
                         (set_field ''token'' (Scalar (uploadDirToken s)) payload) s)))"

definition cleanup_v1 :: "page_v1 \<Rightarrow> page_v1" where
  "cleanup_v1 s =
     (let token = js_or (uploadToken s) (uploadDirToken s)
      in if \<not> truthy token then log msg_nothing_to_clean s
         else fetch (Post ''/api/cleanup'' (JsonBody (JSON_stringify [(''token'', Scalar token)])))
                AfterCleanup s)"

definition cleanup_v1_resume :: "response \<Rightarrow> page_v1 \<Rightarrow> page_v1" where
  "cleanup_v1_resume res s =
     log msg_cleaned (s\<lparr>uploadToken := JNull, uploadDirToken := JNull\<rparr>)"

text \<open>The listener of \<open>change\<close> on \<open>#use_all\<close>; \<open>e.target.checked\<close> is the box's state.\<close>

definition use_all_change_v1 :: "page_v1 \<Rightarrow> page_v1" where
  "use_all_change_v1 s =
     (if use_all s then s\<lparr>whitelist_options := deselect_all (whitelist_options s)\<rparr> else s)"

text \<open>
  Loading the script over a document \<open>d\<close>: the module variables get their initial values
  and the \<open>DOMContentLoaded\<close> listener fills the title list.
\<close>

definition loaded_v1 :: "page_v1 \<Rightarrow> page_v1" where
  "loaded_v1 d =
     fillWhitelist
       (d\<lparr>uploadToken := JNull, uploadDirToken := JNull, lastSource := ''folder'',
          lastFilesMeta := [], sent := [], pending := [], unhandled := [], downloads := []\<rparr>)"

section \<open>Variant 2: titles found by heading level\<close>

definition setBadges_v2 :: "jsval \<Rightarrow> jsval \<Rightarrow> page_v2 \<Rightarrow> page_v2" where
  "setBadges_v2 filesCount titlesCount s =
     s\<lparr>badge_archivos :=
         ToString filesCount @ '' archivo'' @ (if filesCount = JNum 1 then [] else ''s''),
       badge_titulos :=
         ToString titlesCount @ '' t'' @ i_acute @ ''tulo''
         @ (if titlesCount = JNum 1 then [] else ''s'')\<rparr>"

definition fillTitles :: "string list \<Rightarrow> page_v2 \<Rightarrow> page_v2" where
  "fillTitles ts s =
     (let s1 = s\<lparr>titles_options := fill_options ts\<rparr>
      in setBadges_v2 (JNum (int (length (lastFilesMeta s1)))) (JNum (int (length ts))) s1)"

definition scanFolder_v2 :: "page_v2 \<Rightarrow> page_v2" where
  "scanFolder_v2 s =
     (let s1 = s\<lparr>lastSource := ''folder'', uploadToken := JNull\<rparr>;
          s2 = s1\<lparr>titles_options := []\<rparr>;
          s3 = setBadges_v2 (JNum 0) (JNum 0) (drawFilesTable [] s2);
          s4 = log ''Escaneando carpeta...'' s3;
          body = [(''folder'', Scalar (JStr (trim (folder_field s4)))),
                  (''include_subs'', Scalar (JBool (include_subs s4))),
                  (''level'', Scalar (parseInt (level_field s4)))]
      in fetch (Post ''/api/scan-folder'' (JsonBody (JSON_stringify body))) AfterScanFolder s4)"

text \<open>
  The log line reads \<open>js.titles.length\<close> before \<open>js.titles || []\<close> is taken: a reply
  without \<open>titles\<close> throws there, after \<open>lastFilesMeta\<close> (and the token) are stored.
\<close>

definition scanFolder_v2_resume :: "response \<Rightarrow> page_v2 \<Rightarrow> page_v2" where
  "scanFolder_v2_resume res s =
     (case res_json res of
        None \<Rightarrow> reject SyntaxError s
      | Some js \<Rightarrow>
          if \<not> truthy (js_ok js) then log (error_line (js_error js) res) s
          else
            (let s1 = s\<lparr>lastFilesMeta := files_meta_or_empty js\<rparr>
             in case js_titles js of
                  None \<Rightarrow> reject TypeError s1
                | Some ts \<Rightarrow>
                    (let s2 = log (''Archivos: '' @ ToString (js_count js) @ '' | T'' @ i_acute
                                   @ ''tulos ('' @ u_acute @ ''nicos, nivel) : ''
                                   @ show_nat (length ts)) s1;
                         s3 = fillTitles ts s2
                     in drawFilesTable (lastFilesMeta s3) s3)))"

definition scanUpload_v2 :: "page_v2 \<Rightarrow> page_v2" where
  "scanUpload_v2 s =
     (let s1 = s\<lparr>lastSource := ''upload''\<rparr>;
          s2 = s1\<lparr>titles_options := []\<rparr>;
          s3 = setBadges_v2 (JNum 0) (JNum 0) (drawFilesTable [] s2);
          files = files_input s3
      in if files = [] then log ''Selecciona .docx primero.'' s3
         else
           (let s4 = log (''Subiendo '' @ show_nat (length files) @ '' archivo(s)...'') s3;
                fd = (''level'', FormText (level_field s4))
                     # map (\<lambda>f. (''files'', FormFile f)) files
            in fetch (Post ''/api/scan-upload'' (FormBody fd)) AfterScanUpload s4))"

definition scanUpload_v2_resume :: "response \<Rightarrow> page_v2 \<Rightarrow> page_v2" where
  "scanUpload_v2_resume res s =
     (case res_json res of
        None \<Rightarrow> reject SyntaxError s
      | Some js \<Rightarrow>
          if \<not> truthy (js_ok js) then log (error_line (js_error js) res) s
          else
            (let s1 = s\<lparr>uploadToken := js_token js\<rparr>;
                 s2 = s1\<lparr>lastFilesMeta := files_meta_or_empty js\<rparr>
             in case js_titles js of
                  None \<Rightarrow> reject TypeError s2
                | Some ts \<Rightarrow>
                    (let s3 = log (''Token: '' @ ToString (uploadToken s2) @ '' | Archivos: ''
                                   @ ToString (js_count js) @ '' | T'' @ i_acute @ ''tulos (''
                                   @ u_acute @ ''nicos): '' @ show_nat (length ts)) s2;
                         s4 = fillTitles ts s3
                     in drawFilesTable (lastFilesMeta s4) s4)))"

definition mergeNow_v2 :: "page_v2 \<Rightarrow> page_v2" where
  "mergeNow_v2 s =
     (let mode = mode_radio s;
          level = parseInt (level_field s);
          selected = (if \<not> use_all s then selected_values (titles_options s) else [])
      in if \<not> use_all s \<and> selected = [] then
           log msg_select_title s
         else
           (let payload = [(''source'', Scalar (JStr (lastSource s))),
                           (''mode'', Scalar (JStr mode)),
                           (''level'', Scalar level),
                           (''use_all'', Scalar (JBool (use_all s))),
                           (''titles'', Strings selected)]
            in if lastSource s = ''folder'' then
                 (let folder = trim (folder_field s)
                  in if folder = [] then log msg_enter_folder s
                     else send_merge mode
                            (set_field ''include_subs'' (Scalar (JBool (include_subs s)))
                               (set_field ''folder'' (Scalar (JStr folder)) payload)) s)
               else
                 (if \<not> truthy (uploadToken s) then log msg_scan_files_first s
                  else send_merge mode
                         (set_field ''token'' (Scalar (uploadToken s)) payload) s)))"

definition cleanup_v2 :: "page_v2 \<Rightarrow> page_v2" where
  "cleanup_v2 s =
     (if \<not> truthy (uploadToken s) then log msg_nothing_to_clean s
      else fetch (Post ''/api/cleanup''
                   (JsonBody (JSON_stringify [(''token'', Scalar (uploadToken s))])))
             AfterCleanup s)"

definition cleanup_v2_resume :: "response \<Rightarrow> page_v2 \<Rightarrow> page_v2" where
  "cleanup_v2_resume res s = log msg_cleaned (s\<lparr>uploadToken := JNull\<rparr>)"

text \<open>The listeners of \<open>change\<close> on \<open>#level\<close> and on \<open>#use_all\<close>.\<close>

definition level_change_v2 :: "page_v2 \<Rightarrow> page_v2" where
  "level_change_v2 s =
     (let s1 = s\<lparr>titles_options := []\<rparr>;
          s2 = setBadges_v2 (JNum 0) (JNum 0) (drawFilesTable [] s1)
      in log msg_level_changed s2)"

definition use_all_change_v2 :: "page_v2 \<Rightarrow> page_v2" where
  "use_all_change_v2 s =
     (if use_all s then s\<lparr>titles_options := deselect_all (titles_options s)\<rparr> else s)"

definition loaded_v2 :: "page_v2 \<Rightarrow> page_v2" where
  "loaded_v2 d =
     d\<lparr>uploadToken := JNull, lastSource := ''folder'', lastFilesMeta := [], sent := [],
       pending := [], unhandled := [], downloads := []\<rparr>"

section \<open>The event loop\<close>

text \<open>
  What can happen to the page: a click on one of the five buttons starts an \<open>async\<close>
  handler; \<open>Reply i res\<close> gives the reply \<open>res\<close> to the \<open>i\<close>-th waiting continuation
  and \<open>Failure i\<close> rejects its \<open>fetch\<close> (the continuation is dropped); the other events
  are the user's edits of the form, of which the two \<open>change\<close> events have listeners.
  Nothing in the source disables a button while a reply is awaited, so every order of
  these events is possible.
\<close>

datatype event =
    ClickScanFolder | ClickScanUpload | ClickScanUploadDir | ClickMerge | ClickClean
  | Reply nat response
  | Failure nat
  | ToggleUseAll
  | ChangeLevel string
  | EditFolder string
  | ToggleIncludeSubs
  | PickMode string
  | SetSelected nat bool
  | PickFiles "jsfile list"
  | PickFolder "jsfile list"

fun is_click :: "event \<Rightarrow> bool" where
  "is_click ClickScanFolder = True"
| "is_click ClickScanUpload = True"
| "is_click ClickScanUploadDir = True"
| "is_click ClickMerge = True"
| "is_click ClickClean = True"
| "is_click _ = False"

definition take_pending :: "nat \<Rightarrow> 'a page_scheme \<Rightarrow> 'a page_scheme" where
  "take_pending i s = s\<lparr>pending := take i (pending s) @ drop (Suc i) (pending s)\<rparr>"

definition set_selected :: "nat \<Rightarrow> bool \<Rightarrow> (string \<times> bool) list \<Rightarrow> (string \<times> bool) list" where
  "set_selected i b opts = (if i < length opts then opts[i := (fst (opts ! i), b)] else opts)"

fun resume_v1 :: "continuation \<Rightarrow> response \<Rightarrow> page_v1 \<Rightarrow> page_v1" where
  "resume_v1 AfterScanFolder res s = scanFolder_v1_resume res s"
| "resume_v1 AfterScanUpload res s = scanUpload_v1_resume res s"
| "resume_v1 AfterScanUploadDir res s = scanUploadDir_v1_resume res s"
| "resume_v1 (AfterMerge mode) res s = mergeNow_resume mode res s"
| "resume_v1 AfterCleanup res s = cleanup_v1_resume res s"

fun step_v1 :: "event \<Rightarrow> page_v1 \<Rightarrow> page_v1" where
  "step_v1 ClickScanFolder s = scanFolder_v1 s"
| "step_v1 ClickScanUpload s = scanUpload_v1 s"
| "step_v1 ClickScanUploadDir s = scanUploadDir_v1 s"
| "step_v1 ClickMerge s = mergeNow_v1 s"
| "step_v1 ClickClean s = cleanup_v1 s"
| "step_v1 (Reply i res) s =
     (if i < length (pending s) then resume_v1 (pending s ! i) res (take_pending i s) else s)"
| "step_v1 (Failure i) s =
     (if i < length (pending s) then reject TypeError (take_pending i s) else s)"
| "step_v1 ToggleUseAll s = use_all_change_v1 (s\<lparr>use_all := \<not> use_all s\<rparr>)"
| "step_v1 (ChangeLevel v) s = s"
| "step_v1 (EditFolder v) s = s\<lparr>folder_field := v\<rparr>"
| "step_v1 ToggleIncludeSubs s = s\<lparr>include_subs := \<not> include_subs s\<rparr>"
| "step_v1 (PickMode m) s = s\<lparr>mode_radio := m\<rparr>"
| "step_v1 (SetSelected i b) s =
     s\<lparr>whitelist_options := set_selected i b (whitelist_options s)\<rparr>"
| "step_v1 (PickFiles fs) s = s\<lparr>files_input := fs\<rparr>"
| "step_v1 (PickFolder fs) s = s\<lparr>folderInput_files := fs\<rparr>"

fun run_v1 :: "event list \<Rightarrow> page_v1 \<Rightarrow> page_v1" where
  "run_v1 [] s = s"
| "run_v1 (e # es) s = run_v1 es (step_v1 e s)"

fun resume_v2 :: "continuation \<Rightarrow> response \<Rightarrow> page_v2 \<Rightarrow> page_v2" where
  "resume_v2 AfterScanFolder res s = scanFolder_v2_resume res s"
| "resume_v2 AfterScanUpload res s = scanUpload_v2_resume res s"
| "resume_v2 AfterScanUploadDir res s = s"
| "resume_v2 (AfterMerge mode) res s = mergeNow_resume mode res s"
| "resume_v2 AfterCleanup res s = cleanup_v2_resume res s"

fun step_v2 :: "event \<Rightarrow> page_v2 \<Rightarrow> page_v2" where
  "step_v2 ClickScanFolder s = scanFolder_v2 s"
| "step_v2 ClickScanUpload s = scanUpload_v2 s"
| "step_v2 ClickScanUploadDir s = s"
| "step_v2 ClickMerge s = mergeNow_v2 s"
| "step_v2 ClickClean s = cleanup_v2 s"
| "step_v2 (Reply i res) s =
     (if i < length (pending s) then resume_v2 (pending s ! i) res (take_pending i s) else s)"
| "step_v2 (Failure i) s =
     (if i < length (pending s) then reject TypeError (take_pending i s) else s)"
| "step_v2 ToggleUseAll s = use_all_change_v2 (s\<lparr>use_all := \<not> use_all s\<rparr>)"
| "step_v2 (ChangeLevel v) s = level_change_v2 (s\<lparr>level_field := v\<rparr>)"
| "step_v2 (EditFolder v) s = s\<lparr>folder_field := v\<rparr>"
| "step_v2 ToggleIncludeSubs s = s\<lparr>include_subs := \<not> include_subs s\<rparr>"
| "step_v2 (PickMode m) s = s\<lparr>mode_radio := m\<rparr>"
| "step_v2 (SetSelected i b) s = s\<lparr>titles_options := set_selected i b (titles_options s)\<rparr>"
| "step_v2 (PickFiles fs) s = s\<lparr>files_input := fs\<rparr>"
| "step_v2 (PickFolder fs) s = s"

fun run_v2 :: "event list \<Rightarrow> page_v2 \<Rightarrow> page_v2" where
  "run_v2 [] s = s"
| "run_v2 (e # es) s = run_v2 es (step_v2 e s)"

text \<open>
  A run in which no button is clicked while a reply is awaited: every handler has come to
  its end before the next one starts.
\<close>

fun serial_v1 :: "event list \<Rightarrow> page_v1 \<Rightarrow> bool" where
  "serial_v1 [] s = True"
| "serial_v1 (e # es) s =
     ((if is_click e then pending s = [] else True) \<and> serial_v1 es (step_v1 e s))"

text \<open>
  What holds of the two tokens of variant 1 along such a run: at most one reply is awaited,
  one of the tokens is \<open>null\<close>, and while an upload scan awaits its reply the token of
  the other kind is \<open>null\<close>.
\<close>

definition serial_inv :: "page_v1 \<Rightarrow> bool" where
  "serial_inv s =
     (length (pending s) \<le> 1
      \<and> (uploadToken s = JNull \<or> uploadDirToken s = JNull)
      \<and> (if AfterScanUpload \<in> set (pending s) then uploadDirToken s = JNull else True)
      \<and> (if AfterScanUploadDir \<in> set (pending s) then uploadToken s = JNull else True))"

text \<open>The requests that a step \<open>h\<close> gives to \<open>fetch\<close> in the state \<open>s\<close>.\<close>

definition requests_of :: "('a page_scheme \<Rightarrow> 'a page_scheme) \<Rightarrow> 'a page_scheme \<Rightarrow> request list" where
  "requests_of h s = drop (length (sent s)) (sent (h s))"

section \<open>Example pages\<close>

text \<open>
  Concrete pages and replies on which the theorems below are instantiated.  \<open>blank_v1\<close>
  is a document before the script runs: an empty form with the mode "unificado" checked.
\<close>

definition blank_v1 :: page_v1 where
  "blank_v1 =
     \<lparr>uploadToken = JUndefined, lastSource = [], lastFilesMeta = [], log_text = [],
      folder_field = [], include_subs = False, use_all = False,
      mode_radio = ''unificado'', files_input = [], badge_archivos = [], files_table = [],
      sent = [], pending = [], unhandled = [], downloads = [],
      uploadDirToken = JUndefined, whitelist_options = [], folderInput_files = []\<rparr>"

definition ex_folder_v1 :: page_v1 where
  "ex_folder_v1 =
     \<lparr>uploadToken = JNull, lastSource = ''folder'', lastFilesMeta = [], log_text = [],
      folder_field = ''/data'', include_subs = True, use_all = False,
      mode_radio = ''unificado'', files_input = [], badge_archivos = [], files_table = [],
      sent = [], pending = [], unhandled = [], downloads = [],
      uploadDirToken = JNull,
      whitelist_options = set_selected 0 True (fill_options TITULOS_WHITELIST),
      folderInput_files = []\<rparr>"

definition ex_upload_v2 :: page_v2 where
  "ex_upload_v2 =
     \<lparr>uploadToken = JStr ''tok'', lastSource = ''upload'', lastFilesMeta = [], log_text = [],
      folder_field = [], include_subs = False, use_all = True,
      mode_radio = ''grouped'', files_input = [], badge_archivos = [], files_table = [],
      sent = [], pending = [], unhandled = [], downloads = [],
      level_field = ''2'', titles_options = [(''T1'', False)], badge_titulos = []\<rparr>"

definition ex_blank_folder_v1 :: page_v1 where
  "ex_blank_folder_v1 = ex_folder_v1\<lparr>folder_field := ''   ''\<rparr>"

definition ex_no_token_v2 :: page_v2 where
  "ex_no_token_v2 = ex_upload_v2\<lparr>uploadToken := JNull\<rparr>"

definition ex_use_all_v1 :: page_v1 where
  "ex_use_all_v1 = ex_folder_v1\<lparr>use_all := True\<rparr>"

definition ex_dir_token_v1 :: page_v1 where
  "ex_dir_token_v1 = ex_folder_v1\<lparr>lastSource := ''upload_dir'', uploadDirToken := JStr ''tok''\<rparr>"

definition ex_selected_v2 :: page_v2 where
  "ex_selected_v2 = ex_upload_v2\<lparr>use_all := False, titles_options := [(''T1'', True), (''T2'', False)]\<rparr>"

definition ex_reply :: response where
  "ex_reply =
     \<lparr>res_status = 200, res_statusText = ''OK'',
      res_json = Some \<lparr>js_ok = JBool True, js_error = JUndefined, js_token = JStr ''t1'',
                       js_count = JNum 2,
                       js_files_meta = Some [FileMeta ''a.docx'' 1 [''T1'']],
                       js_titles = Some [''T1'']\<rparr>,
      res_blob = []\<rparr>"

definition ex_txt_folder_v1 :: page_v1 where
  "ex_txt_folder_v1 =
     ex_folder_v1\<lparr>folderInput_files := [File ''notes.txt'' ''x'', File ''plan.DOC'' ''y'']\<rparr>"

definition ex_error_reply :: response where
  "ex_error_reply =
     \<lparr>res_status = 400, res_statusText = ''BAD REQUEST'',
      res_json = Some \<lparr>js_ok = JBool False, js_error = JStr ''Carpeta no encontrada'',
                       js_token = JUndefined, js_count = JUndefined,
                       js_files_meta = None, js_titles = None\<rparr>,
      res_blob = []\<rparr>"

definition ex_status_reply :: response where
  "ex_status_reply =
     \<lparr>res_status = 500, res_statusText = ''INTERNAL SERVER ERROR'',
      res_json = Some \<lparr>js_ok = JBool False, js_error = JUndefined,
                       js_token = JUndefined, js_count = JUndefined,
                       js_files_meta = None, js_titles = None\<rparr>,
      res_blob = []\<rparr>"

text \<open>What a gateway answers when the server behind it is down: an HTML page, not JSON.\<close>

definition ex_html_reply :: response where
  "ex_html_reply =
     \<lparr>res_status = 502, res_statusText = ''Bad Gateway'', res_json = None,
      res_blob = ''<html><body><h1>502 Bad Gateway</h1></body></html>''\<rparr>"

definition blank_v2 :: page_v2 where
  "blank_v2 =
     \<lparr>uploadToken = JUndefined, lastSource = [], lastFilesMeta = [], log_text = [],
      folder_field = [], include_subs = False, use_all = False,
      mode_radio = ''unificado'', files_input = [], badge_archivos = [], files_table = [],
      sent = [], pending = [], unhandled = [], downloads = [],
      level_field = ''1'', titles_options = [], badge_titulos = []\<rparr>"

definition ex_after_scan_v2 :: page_v2 where
  "ex_after_scan_v2 =
     run_v2 [EditFolder ''/data'', ClickScanFolder, Reply 0 ex_reply] (loaded_v2 blank_v2)"

definition ex_token_reply :: "string \<Rightarrow> response" where
  "ex_token_reply t =
     \<lparr>res_status = 200, res_statusText = ''OK'',
      res_json = Some \<lparr>js_ok = JBool True, js_error = JUndefined, js_token = JStr t,
                       js_count = JNum 1,
                       js_files_meta = Some [FileMeta ''a.docx'' 1 [''T1'']],
                       js_titles = None\<rparr>,
      res_blob = []\<rparr>"

text \<open>A page that holds a token: files were picked and scanned, and the reply has arrived.\<close>

definition scanned_upload :: "event list" where
  "scanned_upload =
     [PickFiles [File ''a.docx'' ''x''], ClickScanUpload, Reply 0 (ex_token_reply ''t1'')]"

definition ex_scanned_v1 :: page_v1 where
  "ex_scanned_v1 = run_v1 scanned_upload (loaded_v1 blank_v1)"

definition overlapping_scans :: "event list" where
  "overlapping_scans =
     [PickFiles [File ''a.docx'' ''x''], PickFolder [File ''b.docx'' ''y''],
      ClickScanUpload, ClickScanUploadDir,
      Reply 0 (ex_token_reply ''t1''), Reply 0 (ex_token_reply ''t2'')]"

definition serial_scans :: "event list" where
  "serial_scans =
     [PickFiles [File ''a.docx'' ''x''], PickFolder [File ''b.docx'' ''y''],
      ClickScanUpload, Reply 0 (ex_token_reply ''t1''),
      ClickScanUploadDir, Reply 0 (ex_token_reply ''t2'')]"

section \<open>Auxiliary facts\<close>

lemma number_text_safe: "safe_integer n \<Longrightarrow> number_text n = show_int n"
  by (simp add: number_text_def)

lemma number_text_small: "number_text 0 = ''0''" "number_text 1 = ''1''" "number_text 2 = ''2''"
  by (simp_all add: number_text_def safe_integer_def show_int_def show_nat.simps digit_char_def)

lemma safe_status: "n < 65536 \<Longrightarrow> safe_integer (int n)"
  by (simp add: safe_integer_def)

lemma safe_length: "n < 4294967296 \<Longrightarrow> safe_integer (int n)"
  by (simp add: safe_integer_def)

lemma parseInt_defined: "parseInt x \<noteq> JUndefined"
  by (simp add: parseInt_def Let_def)

lemma set_field_folder:
  "set_field ''include_subs'' w (set_field ''folder'' v ((''source'', a) # (''mode'', b) # (''titles'', c) # [])) =
     [(''source'', a), (''mode'', b), (''titles'', c), (''folder'', v), (''include_subs'', w)]"
  by simp

lemma set_field_token:
  "set_field ''token'' v ((''source'', a) # (''mode'', b) # (''titles'', c) # []) =
     [(''source'', a), (''mode'', b), (''titles'', c), (''token'', v)]"
  by simp

lemma set_field_folder_v2:
  "set_field ''include_subs'' w (set_field ''folder'' v ((''source'', a) # (''mode'', b) # (''level'', l) # (''use_all'', u) # (''titles'', c) # [])) =
     [(''source'', a), (''mode'', b), (''level'', l), (''use_all'', u), (''titles'', c), (''folder'', v), (''include_subs'', w)]"
  by simp

lemma set_field_token_v2:
  "set_field ''token'' v ((''source'', a) # (''mode'', b) # (''level'', l) # (''use_all'', u) # (''titles'', c) # []) =
     [(''source'', a), (''mode'', b), (''level'', l), (''use_all'', u), (''titles'', c), (''token'', v)]"
  by simp

lemma truthy_simps [simp]:
  "truthy v \<Longrightarrow> (v = JUndefined) = False"
  "truthy v \<Longrightarrow> (v = JNaN) = False"
  by (cases v; simp)+

lemma trim_data: "trim ''/data'' = ''/data''"
  by code_simp

lemma mergeNow_v1_blocked1:
  "\<not> use_all s \<Longrightarrow> selected_values (whitelist_options s) = [] \<Longrightarrow>
   mergeNow_v1 s = log msg_select_title s"
  unfolding mergeNow_v1_def Let_def by simp

lemma mergeNow_v1_blocked2:
  "use_all s \<or> selected_values (whitelist_options s) \<noteq> [] \<Longrightarrow> lastSource s = ''folder'' \<Longrightarrow>
   trim (folder_field s) = [] \<Longrightarrow> mergeNow_v1 s = log msg_enter_folder s"
  unfolding mergeNow_v1_def Let_def by auto

lemma mergeNow_v1_blocked3:
  "use_all s \<or> selected_values (whitelist_options s) \<noteq> [] \<Longrightarrow> lastSource s = ''upload'' \<Longrightarrow>
   \<not> truthy (uploadToken s) \<Longrightarrow> mergeNow_v1 s = log msg_scan_files_first s"
  unfolding mergeNow_v1_def Let_def by auto

lemma mergeNow_v1_blocked4:
  "use_all s \<or> selected_values (whitelist_options s) \<noteq> [] \<Longrightarrow> lastSource s \<noteq> ''folder'' \<Longrightarrow>
   lastSource s \<noteq> ''upload'' \<Longrightarrow> \<not> truthy (uploadDirToken s) \<Longrightarrow>
   mergeNow_v1 s = log msg_scan_folder_first s"
  unfolding mergeNow_v1_def Let_def by auto

lemma mergeNow_v1_folder:
  "use_all s \<or> selected_values (whitelist_options s) \<noteq> [] \<Longrightarrow> lastSource s = ''folder'' \<Longrightarrow>
   trim (folder_field s) \<noteq> [] \<Longrightarrow>
   mergeNow_v1 s = send_merge (mode_radio s)
     [(''source'', Scalar (JStr (lastSource s))), (''mode'', Scalar (JStr (mode_radio s))),
      (''titles'', Strings (if use_all s then TITULOS_WHITELIST
                            else selected_values (whitelist_options s))),
      (''folder'', Scalar (JStr (trim (folder_field s)))),
      (''include_subs'', Scalar (JBool (include_subs s)))] s"
  unfolding mergeNow_v1_def Let_def set_field_folder by auto

lemma mergeNow_v1_upload:
  "use_all s \<or> selected_values (whitelist_options s) \<noteq> [] \<Longrightarrow> lastSource s = ''upload'' \<Longrightarrow>
   truthy (uploadToken s) \<Longrightarrow>
   mergeNow_v1 s = send_merge (mode_radio s)
     [(''source'', Scalar (JStr (lastSource s))), (''mode'', Scalar (JStr (mode_radio s))),
      (''titles'', Strings (if use_all s then TITULOS_WHITELIST
                            else selected_values (whitelist_options s))),
      (''token'', Scalar (uploadToken s))] s"
  unfolding mergeNow_v1_def Let_def set_field_token by auto

lemma mergeNow_v1_upload_dir:
  "use_all s \<or> selected_values (whitelist_options s) \<noteq> [] \<Longrightarrow> lastSource s \<noteq> ''folder'' \<Longrightarrow>
   lastSource s \<noteq> ''upload'' \<Longrightarrow> truthy (uploadDirToken s) \<Longrightarrow>
   mergeNow_v1 s = send_merge (mode_radio s)
     [(''source'', Scalar (JStr (lastSource s))), (''mode'', Scalar (JStr (mode_radio s))),
      (''titles'', Strings (if use_all s then TITULOS_WHITELIST
                            else selected_values (whitelist_options s))),
      (''token'', Scalar (uploadDirToken s))] s"
  unfolding mergeNow_v1_def Let_def set_field_token by auto

lemma mergeNow_v2_blocked1:
  "\<not> use_all s \<Longrightarrow> selected_values (titles_options s) = [] \<Longrightarrow>
   mergeNow_v2 s = log msg_select_title s"
  unfolding mergeNow_v2_def Let_def by simp

lemma mergeNow_v2_blocked2:
  "use_all s \<or> selected_values (titles_options s) \<noteq> [] \<Longrightarrow> lastSource s = ''folder'' \<Longrightarrow>
   trim (folder_field s) = [] \<Longrightarrow> mergeNow_v2 s = log msg_enter_folder s"
  unfolding mergeNow_v2_def Let_def by auto

lemma mergeNow_v2_blocked3:
  "use_all s \<or> selected_values (titles_options s) \<noteq> [] \<Longrightarrow> lastSource s \<noteq> ''folder'' \<Longrightarrow>
   \<not> truthy (uploadToken s) \<Longrightarrow> mergeNow_v2 s = log msg_scan_files_first s"
  unfolding mergeNow_v2_def Let_def by auto

lemma mergeNow_v2_folder:
  "use_all s \<or> selected_values (titles_options s) \<noteq> [] \<Longrightarrow> lastSource s = ''folder'' \<Longrightarrow>
   trim (folder_field s) \<noteq> [] \<Longrightarrow>
   mergeNow_v2 s = send_merge (mode_radio s)
     [(''source'', Scalar (JStr (lastSource s))), (''mode'', Scalar (JStr (mode_radio s))),
      (''level'', Scalar (parseInt (level_field s))),
      (''use_all'', Scalar (JBool (use_all s))),
      (''titles'', Strings (if use_all s then [] else selected_values (titles_options s))),
      (''folder'', Scalar (JStr (trim (folder_field s)))),
      (''include_subs'', Scalar (JBool (include_subs s)))] s"
  unfolding mergeNow_v2_def Let_def set_field_folder_v2 by auto

lemma mergeNow_v2_upload:
  "use_all s \<or> selected_values (titles_options s) \<noteq> [] \<Longrightarrow> lastSource s \<noteq> ''folder'' \<Longrightarrow>
   truthy (uploadToken s) \<Longrightarrow>
   mergeNow_v2 s = send_merge (mode_radio s)
     [(''source'', Scalar (JStr (lastSource s))), (''mode'', Scalar (JStr (mode_radio s))),
      (''level'', Scalar (parseInt (level_field s))),
      (''use_all'', Scalar (JBool (use_all s))),
      (''titles'', Strings (if use_all s then [] else selected_values (titles_options s))),
      (''token'', Scalar (uploadToken s))] s"
  unfolding mergeNow_v2_def Let_def set_field_token_v2 by auto

lemma sent_send_merge:
  "sent (send_merge mode p s) = sent s @ [Post ''/api/merge'' (JsonBody (JSON_stringify p))]"
  by (simp add: send_merge_def fetch_def log_def)

lemma requests_of_blocked: "h s = log m s \<Longrightarrow> requests_of h s = []"
  by (simp add: requests_of_def log_def)

lemma requests_of_merge:
  "h s = send_merge mode p s \<Longrightarrow>
   requests_of h s = [Post ''/api/merge'' (JsonBody (JSON_stringify p))]"
  by (simp add: requests_of_def sent_send_merge)

lemma stringify_folder_v1:
  "JSON_stringify [(''source'', Scalar (JStr a)), (''mode'', Scalar (JStr b)), (''titles'', Strings ts),
      (''folder'', Scalar (JStr f)), (''include_subs'', Scalar (JBool i))] =
   [(''source'', Scalar (JStr a)), (''mode'', Scalar (JStr b)), (''titles'', Strings ts),
      (''folder'', Scalar (JStr f)), (''include_subs'', Scalar (JBool i))]"
  by (simp add: JSON_stringify_def)

lemma stringify_token_v1:
  "truthy t \<Longrightarrow>
   JSON_stringify [(''source'', Scalar (JStr a)), (''mode'', Scalar (JStr b)), (''titles'', Strings ts),
      (''token'', Scalar t)] =
   [(''source'', Scalar (JStr a)), (''mode'', Scalar (JStr b)), (''titles'', Strings ts),
      (''token'', Scalar t)]"
  by (simp add: JSON_stringify_def)

lemma stringify_folder_v2:
  "JSON_stringify [(''source'', Scalar (JStr a)), (''mode'', Scalar (JStr b)),
      (''level'', Scalar (parseInt l)), (''use_all'', Scalar (JBool u)), (''titles'', Strings ts),
      (''folder'', Scalar (JStr f)), (''include_subs'', Scalar (JBool i))] =
   [(''source'', Scalar (JStr a)), (''mode'', Scalar (JStr b)),
      (''level'', Scalar (if parseInt l = JNaN then JNull else parseInt l)),
      (''use_all'', Scalar (JBool u)), (''titles'', Strings ts),
      (''folder'', Scalar (JStr f)), (''include_subs'', Scalar (JBool i))]"
  by (simp add: JSON_stringify_def parseInt_defined)

lemma stringify_token_v2:
  "truthy t \<Longrightarrow>
   JSON_stringify [(''source'', Scalar (JStr a)), (''mode'', Scalar (JStr b)),
      (''level'', Scalar (parseInt l)), (''use_all'', Scalar (JBool u)), (''titles'', Strings ts),
      (''token'', Scalar t)] =
   [(''source'', Scalar (JStr a)), (''mode'', Scalar (JStr b)),
      (''level'', Scalar (if parseInt l = JNaN then JNull else parseInt l)),
      (''use_all'', Scalar (JBool u)), (''titles'', Strings ts),
      (''token'', Scalar t)]"
  by (simp add: JSON_stringify_def parseInt_defined)


lemma requests_of_mergeNow_v1:
  "requests_of mergeNow_v1 s =
    (if \<not> use_all s \<and> selected_values (whitelist_options s) = [] then []
     else if lastSource s = ''folder'' then
       (if trim (folder_field s) = [] then []
        else [Post ''/api/merge'' (JsonBody
               [(''source'', Scalar (JStr (lastSource s))), (''mode'', Scalar (JStr (mode_radio s))),
                (''titles'', Strings (if use_all s then TITULOS_WHITELIST
                                      else selected_values (whitelist_options s))),
                (''folder'', Scalar (JStr (trim (folder_field s)))),
                (''include_subs'', Scalar (JBool (include_subs s)))])])
     else if lastSource s = ''upload'' then
       (if \<not> truthy (uploadToken s) then []
        else [Post ''/api/merge'' (JsonBody
               [(''source'', Scalar (JStr (lastSource s))), (''mode'', Scalar (JStr (mode_radio s))),
                (''titles'', Strings (if use_all s then TITULOS_WHITELIST
                                      else selected_values (whitelist_options s))),
                (''token'', Scalar (uploadToken s))])])
     else
       (if \<not> truthy (uploadDirToken s) then []
        else [Post ''/api/merge'' (JsonBody
               [(''source'', Scalar (JStr (lastSource s))), (''mode'', Scalar (JStr (mode_radio s))),
                (''titles'', Strings (if use_all s then TITULOS_WHITELIST
                                      else selected_values (whitelist_options s))),
                (''token'', Scalar (uploadDirToken s))])]))"
proof (cases "use_all s \<or> selected_values (whitelist_options s) \<noteq> []")
  case False
  then show ?thesis
    by (simp add: requests_of_blocked [of mergeNow_v1, OF mergeNow_v1_blocked1])
next
  case sel: True
  show ?thesis
  proof (cases "lastSource s = ''folder''")
    case folder: True
    show ?thesis
    proof (cases "trim (folder_field s) = []")
      case True
      with sel folder show ?thesis
        by (auto simp: requests_of_blocked [of mergeNow_v1, OF mergeNow_v1_blocked2])
    next
      case False
      with sel folder show ?thesis
        by (auto simp: requests_of_merge [of mergeNow_v1, OF mergeNow_v1_folder]
            stringify_folder_v1)
    qed
  next
    case nofolder: False
    show ?thesis
    proof (cases "lastSource s = ''upload''")
      case upload: True
      show ?thesis
      proof (cases "truthy (uploadToken s)")
        case False
        with sel upload show ?thesis
          by (auto simp: requests_of_blocked [of mergeNow_v1, OF mergeNow_v1_blocked3])
      next
        case True
        with sel upload show ?thesis
          by (auto simp: requests_of_merge [of mergeNow_v1, OF mergeNow_v1_upload]
              stringify_token_v1)
      qed
    next
      case dir: False
      show ?thesis
      proof (cases "truthy (uploadDirToken s)")
        case False
        with sel nofolder dir show ?thesis
          by (auto simp: requests_of_blocked [of mergeNow_v1, OF mergeNow_v1_blocked4])
      next
        case True
        with sel nofolder dir show ?thesis
          by (auto simp: requests_of_merge [of mergeNow_v1, OF mergeNow_v1_upload_dir]
              stringify_token_v1)
      qed
    qed
  qed
qed

lemma requests_of_mergeNow_v2:
  "requests_of mergeNow_v2 s =
    (if \<not> use_all s \<and> selected_values (titles_options s) = [] then []
     else if lastSource s = ''folder'' then
       (if trim (folder_field s) = [] then []
        else [Post ''/api/merge'' (JsonBody
               [(''source'', Scalar (JStr (lastSource s))), (''mode'', Scalar (JStr (mode_radio s))),
                (''level'', Scalar (if parseInt (level_field s) = JNaN then JNull
                                    else parseInt (level_field s))),
                (''use_all'', Scalar (JBool (use_all s))),
                (''titles'', Strings (if use_all s then [] else selected_values (titles_options s))),
                (''folder'', Scalar (JStr (trim (folder_field s)))),
                (''include_subs'', Scalar (JBool (include_subs s)))])])
     else
       (if \<not> truthy (uploadToken s) then []
        else [Post ''/api/merge'' (JsonBody
               [(''source'', Scalar (JStr (lastSource s))), (''mode'', Scalar (JStr (mode_radio s))),
                (''level'', Scalar (if parseInt (level_field s) = JNaN then JNull
                                    else parseInt (level_field s))),
                (''use_all'', Scalar (JBool (use_all s))),
                (''titles'', Strings (if use_all s then [] else selected_values (titles_options s))),
                (''token'', Scalar (uploadToken s))])]))"
proof (cases "use_all s \<or> selected_values (titles_options s) \<noteq> []")
  case False
  then show ?thesis
    by (simp add: requests_of_blocked [of mergeNow_v2, OF mergeNow_v2_blocked1])
next
  case sel: True
  show ?thesis
  proof (cases "lastSource s = ''folder''")
    case folder: True
    show ?thesis
    proof (cases "trim (folder_field s) = []")
      case True
      with sel folder show ?thesis
        by (auto simp: requests_of_blocked [of mergeNow_v2, OF mergeNow_v2_blocked2])
    next
      case False
      with sel folder show ?thesis
        by (auto simp: requests_of_merge [of mergeNow_v2, OF mergeNow_v2_folder]
            stringify_folder_v2)
    qed
  next
    case nofolder: False
    show ?thesis
    proof (cases "truthy (uploadToken s)")
      case False
      with sel nofolder show ?thesis
        by (auto simp: requests_of_blocked [of mergeNow_v2, OF mergeNow_v2_blocked3])
    next
      case True
      with sel nofolder show ?thesis
        by (auto simp: requests_of_merge [of mergeNow_v2, OF mergeNow_v2_upload]
            stringify_token_v2)
    qed
  qed
qed

section \<open>The merge request\<close>

text \<open>
  \<open>mergeNow\<close> either logs a prompt or sends one request; it only adds to the trace of
  requests (so do all handlers: \<open>fetch\<close> is the only function that writes \<open>sent\<close>).
\<close>

lemma mergeNow_v1_shape:
  "(\<exists>m. mergeNow_v1 s = log m s) \<or> (\<exists>p. mergeNow_v1 s = send_merge (mode_radio s) p s)"
  using mergeNow_v1_blocked1 [of s] mergeNow_v1_blocked2 [of s] mergeNow_v1_blocked3 [of s]
    mergeNow_v1_blocked4 [of s] mergeNow_v1_folder [of s] mergeNow_v1_upload [of s]
    mergeNow_v1_upload_dir [of s]
  by metis

lemma mergeNow_v2_shape:
  "(\<exists>m. mergeNow_v2 s = log m s) \<or> (\<exists>p. mergeNow_v2 s = send_merge (mode_radio s) p s)"
  using mergeNow_v2_blocked1 [of s] mergeNow_v2_blocked2 [of s] mergeNow_v2_blocked3 [of s]
    mergeNow_v2_folder [of s] mergeNow_v2_upload [of s]
  by metis

lemma sent_mergeNow:
  "sent (mergeNow_v1 s1) = sent s1 @ requests_of mergeNow_v1 s1"
  "sent (mergeNow_v2 s2) = sent s2 @ requests_of mergeNow_v2 s2"
  using mergeNow_v1_shape [of s1] mergeNow_v2_shape [of s2]
  by (auto simp: requests_of_def sent_send_merge log_def)

text \<open>
  Claim C1.  Every request that \<open>mergeNow\<close> gives to \<open>fetch\<close>, in either variant, is a
  POST to \<open>/api/merge\<close> whose JSON payload depends on the source: for the source
  \<open>folder\<close> it has the members \<open>folder\<close> and \<open>include_subs\<close> and no \<open>token\<close>;
  for any other source (\<open>upload\<close>, \<open>upload_dir\<close>) it has \<open>token\<close> and neither
  \<open>folder\<close> nor \<open>include_subs\<close>; no payload has both \<open>folder\<close> and \<open>token\<close>.
\<close>

theorem merge_payload_source_exclusive:
  "(\<forall>r \<in> set (requests_of mergeNow_v1 s1). \<exists>p. r = Post ''/api/merge'' (JsonBody p) \<and>
      (lastSource s1 = ''folder'' \<longrightarrow>
         has_field p ''folder'' \<and> has_field p ''include_subs'' \<and> \<not> has_field p ''token'') \<and>
      (lastSource s1 \<noteq> ''folder'' \<longrightarrow>
         has_field p ''token'' \<and> \<not> has_field p ''folder'' \<and> \<not> has_field p ''include_subs'') \<and>
      \<not> (has_field p ''folder'' \<and> has_field p ''token''))
   \<and> (\<forall>r \<in> set (requests_of mergeNow_v2 s2). \<exists>p. r = Post ''/api/merge'' (JsonBody p) \<and>
      (lastSource s2 = ''folder'' \<longrightarrow>
         has_field p ''folder'' \<and> has_field p ''include_subs'' \<and> \<not> has_field p ''token'') \<and>
      (lastSource s2 \<noteq> ''folder'' \<longrightarrow>
         has_field p ''token'' \<and> \<not> has_field p ''folder'' \<and> \<not> has_field p ''include_subs'') \<and>
      \<not> (has_field p ''folder'' \<and> has_field p ''token''))"
proof
  show "\<forall>r \<in> set (requests_of mergeNow_v1 s1). \<exists>p. r = Post ''/api/merge'' (JsonBody p) \<and>
      (lastSource s1 = ''folder'' \<longrightarrow>
         has_field p ''folder'' \<and> has_field p ''include_subs'' \<and> \<not> has_field p ''token'') \<and>
      (lastSource s1 \<noteq> ''folder'' \<longrightarrow>
         has_field p ''token'' \<and> \<not> has_field p ''folder'' \<and> \<not> has_field p ''include_subs'') \<and>
      \<not> (has_field p ''folder'' \<and> has_field p ''token'')"
    by (simp add: requests_of_mergeNow_v1 has_field_def get_field_def)
  show "\<forall>r \<in> set (requests_of mergeNow_v2 s2). \<exists>p. r = Post ''/api/merge'' (JsonBody p) \<and>
      (lastSource s2 = ''folder'' \<longrightarrow>
         has_field p ''folder'' \<and> has_field p ''include_subs'' \<and> \<not> has_field p ''token'') \<and>
      (lastSource s2 \<noteq> ''folder'' \<longrightarrow>
         has_field p ''token'' \<and> \<not> has_field p ''folder'' \<and> \<not> has_field p ''include_subs'') \<and>
      \<not> (has_field p ''folder'' \<and> has_field p ''token'')"
    by (simp add: requests_of_mergeNow_v2 has_field_def get_field_def)
qed

lemma ex_folder_v1_reachable:
  "ex_folder_v1 =
     run_v1 [EditFolder ''/data'', ToggleIncludeSubs, SetSelected 0 True] (loaded_v1 blank_v1)"
  by (simp add: ex_folder_v1_def loaded_v1_def blank_v1_def fillWhitelist_def)

lemma first_selected:
  "selected_values (set_selected 0 True (fill_options TITULOS_WHITELIST)) =
     [''1. Introducci'' @ o_acute @ ''n'' @ zwsp]"
  by (simp add: TITULOS_WHITELIST_def fill_options_def set_selected_def selected_values_def)

lemma deselect_set_selected:
  "deselect_all (set_selected i b (fill_options ts)) = fill_options ts"
  by (simp add: deselect_all_def set_selected_def fill_options_def map_update list_eq_iff_nth_eq
      nth_list_update)

lemma ex_folder_v1_requests:
  "requests_of mergeNow_v1 ex_folder_v1 =
     [Post ''/api/merge'' (JsonBody
        [(''source'', Scalar (JStr ''folder'')), (''mode'', Scalar (JStr ''unificado'')),
         (''titles'', Strings [''1. Introducci'' @ o_acute @ ''n'' @ zwsp]),
         (''folder'', Scalar (JStr ''/data'')),
         (''include_subs'', Scalar (JBool True))])]"
  by (simp add: requests_of_mergeNow_v1 ex_folder_v1_def first_selected trim_data)

lemma ex_upload_v2_requests:
  "requests_of mergeNow_v2 ex_upload_v2 =
     [Post ''/api/merge'' (JsonBody
        [(''source'', Scalar (JStr ''upload'')), (''mode'', Scalar (JStr ''grouped'')),
         (''level'', Scalar (JNum 2)), (''use_all'', Scalar (JBool True)),
         (''titles'', Strings []), (''token'', Scalar (JStr ''tok''))])]"
proof -
  have "parseInt ''2'' = JNum 2" by code_simp
  then show ?thesis
    by (simp add: requests_of_mergeNow_v2 ex_upload_v2_def)
qed

theorem merge_payload_source_exclusive_witness:
  "(\<exists>p. requests_of mergeNow_v1 ex_folder_v1 = [Post ''/api/merge'' (JsonBody p)] \<and>
        lastSource ex_folder_v1 = ''folder'' \<and>
        has_field p ''folder'' \<and> has_field p ''include_subs'' \<and> \<not> has_field p ''token'')
   \<and> (\<exists>p. requests_of mergeNow_v2 ex_upload_v2 = [Post ''/api/merge'' (JsonBody p)] \<and>
        lastSource ex_upload_v2 = ''upload'' \<and>
        has_field p ''token'' \<and> \<not> has_field p ''folder'' \<and> \<not> has_field p ''include_subs'')"
  using merge_payload_source_exclusive [of ex_folder_v1 ex_upload_v2]
  by (simp add: ex_folder_v1_requests ex_upload_v2_requests)
     (simp add: ex_folder_v1_def ex_upload_v2_def)

lemma trim_blank: "trim ''   '' = []"
  by code_simp

text \<open>
  Claim C2.  \<open>mergeNow\<close> sends nothing when its checks fail.  In both variants: if
  \<open>use_all\<close> is off and no title is selected, or the source is \<open>folder\<close> and the trimmed
  folder path is empty, or the source is an upload kind and its token is not held (the
  variable is \<open>null\<close>, \<open>undefined\<close> or otherwise falsy, as \<open>!uploadToken\<close> tests),
  then no request is given to \<open>fetch\<close> and the handler does nothing but append one of its
  prompts to the log.
\<close>

theorem merge_blocked_when_invalid:
  "((\<not> use_all s1 \<and> selected_values (whitelist_options s1) = [])
      \<or> (lastSource s1 = ''folder'' \<and> trim (folder_field s1) = [])
      \<or> (lastSource s1 = ''upload'' \<and> \<not> truthy (uploadToken s1))
      \<or> (lastSource s1 \<noteq> ''folder'' \<and> lastSource s1 \<noteq> ''upload'' \<and> \<not> truthy (uploadDirToken s1))
     \<longrightarrow> requests_of mergeNow_v1 s1 = []
         \<and> (mergeNow_v1 s1 = log msg_select_title s1 \<or> mergeNow_v1 s1 = log msg_enter_folder s1
            \<or> mergeNow_v1 s1 = log msg_scan_files_first s1
            \<or> mergeNow_v1 s1 = log msg_scan_folder_first s1))
   \<and> ((\<not> use_all s2 \<and> selected_values (titles_options s2) = [])
      \<or> (lastSource s2 = ''folder'' \<and> trim (folder_field s2) = [])
      \<or> (lastSource s2 \<noteq> ''folder'' \<and> \<not> truthy (uploadToken s2))
     \<longrightarrow> requests_of mergeNow_v2 s2 = []
         \<and> (mergeNow_v2 s2 = log msg_select_title s2 \<or> mergeNow_v2 s2 = log msg_enter_folder s2
            \<or> mergeNow_v2 s2 = log msg_scan_files_first s2))"
proof (intro conjI impI)
  assume h: "(\<not> use_all s1 \<and> selected_values (whitelist_options s1) = [])
      \<or> (lastSource s1 = ''folder'' \<and> trim (folder_field s1) = [])
      \<or> (lastSource s1 = ''upload'' \<and> \<not> truthy (uploadToken s1))
      \<or> (lastSource s1 \<noteq> ''folder'' \<and> lastSource s1 \<noteq> ''upload'' \<and> \<not> truthy (uploadDirToken s1))"
  then show "requests_of mergeNow_v1 s1 = []"
    by (auto simp: requests_of_mergeNow_v1)
  show "mergeNow_v1 s1 = log msg_select_title s1 \<or> mergeNow_v1 s1 = log msg_enter_folder s1
            \<or> mergeNow_v1 s1 = log msg_scan_files_first s1
            \<or> mergeNow_v1 s1 = log msg_scan_folder_first s1"
  proof (cases "use_all s1 \<or> selected_values (whitelist_options s1) \<noteq> []")
    case False
    then show ?thesis using mergeNow_v1_blocked1 [of s1] by blast
  next
    case True
    with h show ?thesis
      using mergeNow_v1_blocked2 [of s1] mergeNow_v1_blocked3 [of s1] mergeNow_v1_blocked4 [of s1]
      by blast
  qed
next
  assume h: "(\<not> use_all s2 \<and> selected_values (titles_options s2) = [])
      \<or> (lastSource s2 = ''folder'' \<and> trim (folder_field s2) = [])
      \<or> (lastSource s2 \<noteq> ''folder'' \<and> \<not> truthy (uploadToken s2))"
  then show "requests_of mergeNow_v2 s2 = []"
    by (auto simp: requests_of_mergeNow_v2)
  show "mergeNow_v2 s2 = log msg_select_title s2 \<or> mergeNow_v2 s2 = log msg_enter_folder s2
            \<or> mergeNow_v2 s2 = log msg_scan_files_first s2"
  proof (cases "use_all s2 \<or> selected_values (titles_options s2) \<noteq> []")
    case False
    then show ?thesis using mergeNow_v2_blocked1 [of s2] by blast
  next
    case True
    with h show ?thesis
      using mergeNow_v2_blocked2 [of s2] mergeNow_v2_blocked3 [of s2]
      by blast
  qed
qed

theorem merge_blocked_when_invalid_witness:
  "lastSource ex_blank_folder_v1 = ''folder'' \<and> trim (folder_field ex_blank_folder_v1) = []
   \<and> requests_of mergeNow_v1 ex_blank_folder_v1 = []
   \<and> log_text (mergeNow_v1 ex_blank_folder_v1) = msg_enter_folder @ newline
   \<and> lastSource ex_no_token_v2 = ''upload'' \<and> \<not> truthy (uploadToken ex_no_token_v2)
   \<and> requests_of mergeNow_v2 ex_no_token_v2 = []
   \<and> log_text (mergeNow_v2 ex_no_token_v2) = msg_scan_files_first @ newline"
proof -
  have a: "lastSource ex_blank_folder_v1 = ''folder'' \<and> trim (folder_field ex_blank_folder_v1) = []"
    by (simp add: ex_blank_folder_v1_def ex_folder_v1_def trim_blank)
  have b: "lastSource ex_no_token_v2 \<noteq> ''folder'' \<and> \<not> truthy (uploadToken ex_no_token_v2)"
    by (simp add: ex_no_token_v2_def ex_upload_v2_def)
  have c: "use_all ex_blank_folder_v1 \<or> selected_values (whitelist_options ex_blank_folder_v1) \<noteq> []"
    by (simp add: ex_blank_folder_v1_def ex_folder_v1_def first_selected)
  have d: "use_all ex_no_token_v2 \<or> selected_values (titles_options ex_no_token_v2) \<noteq> []"
    by (simp add: ex_no_token_v2_def ex_upload_v2_def)
  have e: "log_text ex_blank_folder_v1 = [] \<and> log_text ex_no_token_v2 = []
       \<and> lastSource ex_no_token_v2 = ''upload''"
    by (simp add: ex_blank_folder_v1_def ex_folder_v1_def ex_no_token_v2_def ex_upload_v2_def)
  from merge_blocked_when_invalid [of ex_blank_folder_v1 ex_no_token_v2] a b
  have "requests_of mergeNow_v1 ex_blank_folder_v1 = []"
    and "requests_of mergeNow_v2 ex_no_token_v2 = []"
    by blast+
  then show ?thesis
    using a b e mergeNow_v1_blocked2 [OF c] mergeNow_v2_blocked3 [OF d]
    by (simp add: log_def)
qed

text \<open>
  Claim C3.  In every payload that \<open>mergeNow\<close> sends, \<open>titles\<close> is empty only when
  \<open>use_all\<close> is on.  With \<open>use_all\<close> off, \<open>titles\<close> is the explicit selection, which
  is not empty; with \<open>use_all\<close> on, variant 1 sends the whole fixed list
  \<open>TITULOS_WHITELIST\<close> and variant 2 sends the empty list together with the member
  \<open>use_all = true\<close>.
\<close>

theorem merge_titles_empty_only_with_use_all:
  "(\<forall>r \<in> set (requests_of mergeNow_v1 s1). \<exists>p ts. r = Post ''/api/merge'' (JsonBody p) \<and>
       get_field p ''titles'' = Some (Strings ts) \<and>
       (ts = [] \<longrightarrow> use_all s1) \<and>
       (\<not> use_all s1 \<longrightarrow> ts = selected_values (whitelist_options s1) \<and> ts \<noteq> []) \<and>
       (use_all s1 \<longrightarrow> ts = TITULOS_WHITELIST))
   \<and> (\<forall>r \<in> set (requests_of mergeNow_v2 s2). \<exists>p ts. r = Post ''/api/merge'' (JsonBody p) \<and>
       get_field p ''titles'' = Some (Strings ts) \<and>
       (ts = [] \<longrightarrow> use_all s2) \<and>
       (\<not> use_all s2 \<longrightarrow> ts = selected_values (titles_options s2) \<and> ts \<noteq> []) \<and>
       (use_all s2 \<longrightarrow> ts = [] \<and> get_field p ''use_all'' = Some (Scalar (JBool True))))"
proof
  show "\<forall>r \<in> set (requests_of mergeNow_v1 s1). \<exists>p ts. r = Post ''/api/merge'' (JsonBody p) \<and>
       get_field p ''titles'' = Some (Strings ts) \<and>
       (ts = [] \<longrightarrow> use_all s1) \<and>
       (\<not> use_all s1 \<longrightarrow> ts = selected_values (whitelist_options s1) \<and> ts \<noteq> []) \<and>
       (use_all s1 \<longrightarrow> ts = TITULOS_WHITELIST)"
    by (simp add: requests_of_mergeNow_v1 get_field_def)
  show "\<forall>r \<in> set (requests_of mergeNow_v2 s2). \<exists>p ts. r = Post ''/api/merge'' (JsonBody p) \<and>
       get_field p ''titles'' = Some (Strings ts) \<and>
       (ts = [] \<longrightarrow> use_all s2) \<and>
       (\<not> use_all s2 \<longrightarrow> ts = selected_values (titles_options s2) \<and> ts \<noteq> []) \<and>
       (use_all s2 \<longrightarrow> ts = [] \<and> get_field p ''use_all'' = Some (Scalar (JBool True)))"
    by (simp add: requests_of_mergeNow_v2 get_field_def)
qed

lemma whitelist_length: "length TITULOS_WHITELIST = 28"
  by (simp add: TITULOS_WHITELIST_def)

theorem merge_titles_witness:
  "(\<exists>p. requests_of mergeNow_v1 ex_use_all_v1 = [Post ''/api/merge'' (JsonBody p)] \<and>
        use_all ex_use_all_v1 \<and> get_field p ''titles'' = Some (Strings TITULOS_WHITELIST))
   \<and> (\<exists>p. requests_of mergeNow_v1 ex_folder_v1 = [Post ''/api/merge'' (JsonBody p)] \<and>
        \<not> use_all ex_folder_v1 \<and>
        get_field p ''titles'' = Some (Strings [''1. Introducci'' @ o_acute @ ''n'' @ zwsp]))
   \<and> (\<exists>p. requests_of mergeNow_v2 ex_upload_v2 = [Post ''/api/merge'' (JsonBody p)] \<and>
        use_all ex_upload_v2 \<and> get_field p ''titles'' = Some (Strings []) \<and>
        get_field p ''use_all'' = Some (Scalar (JBool True)))"
proof -
  have r1: "requests_of mergeNow_v1 ex_use_all_v1 =
     [Post ''/api/merge'' (JsonBody
        [(''source'', Scalar (JStr ''folder'')), (''mode'', Scalar (JStr ''unificado'')),
         (''titles'', Strings TITULOS_WHITELIST), (''folder'', Scalar (JStr ''/data'')),
         (''include_subs'', Scalar (JBool True))])]"
    by (simp add: requests_of_mergeNow_v1 ex_use_all_v1_def ex_folder_v1_def trim_data)
  have u: "use_all ex_use_all_v1 \<and> \<not> use_all ex_folder_v1 \<and> use_all ex_upload_v2
       \<and> selected_values (whitelist_options ex_folder_v1)
           = [''1. Introducci'' @ o_acute @ ''n'' @ zwsp]"
    by (simp add: ex_use_all_v1_def ex_folder_v1_def ex_upload_v2_def first_selected)
  show ?thesis
    using merge_titles_empty_only_with_use_all [of ex_use_all_v1 ex_upload_v2]
      merge_titles_empty_only_with_use_all [of ex_folder_v1 ex_upload_v2] u
    by (simp add: r1 ex_folder_v1_requests ex_upload_v2_requests get_field_def)
qed

section \<open>The listeners of the level and of "use all"\<close>

text \<open>
  Claim C5.  In variant 2 the listener of \<open>change\<close> on \<open>#level\<close>, which every change of
  the level runs, empties the title list, resets the files table to its placeholder row,
  sets both badges to zero and logs the message that asks for a new scan.
\<close>

theorem level_change_invalidates:
  "titles_options (level_change_v2 s) = []
   \<and> files_table (level_change_v2 s) = [Placeholder]
   \<and> badge_archivos (level_change_v2 s) = ''0 archivos''
   \<and> badge_titulos (level_change_v2 s) = ''0 t'' @ i_acute @ ''tulos''
   \<and> log_text (level_change_v2 s) = log_text s @ msg_level_changed @ newline
   \<and> step_v2 (ChangeLevel v) s = level_change_v2 (s\<lparr>level_field := v\<rparr>)"
  by (simp add: level_change_v2_def Let_def setBadges_v2_def drawFilesTable_def log_def
      number_text_small)

lemma selected_deselect_all: "selected_values (deselect_all opts) = []"
  by (induction opts) (auto simp: selected_values_def deselect_all_def)

lemma values_deselect_all: "map fst (deselect_all opts) = map fst opts"
  by (induction opts) (auto simp: deselect_all_def)

lemma snd_deselect_all: "\<forall>opt \<in> set (deselect_all opts). \<not> snd opt"
  by (auto simp: deselect_all_def)

text \<open>
  Claim C6.  In both variants, when the \<open>change\<close> listener of \<open>#use_all\<close> runs with the
  box checked, every option of the title list is deselected afterwards (the options
  themselves stay); so a click that checks the box leaves the box checked and no title
  selected.  Nothing is claimed about unchecking the box when a title is selected by hand.
\<close>

theorem use_all_checked_clears_selection:
  "(use_all s1 \<longrightarrow>
      (\<forall>opt \<in> set (whitelist_options (use_all_change_v1 s1)). \<not> snd opt)
      \<and> selected_values (whitelist_options (use_all_change_v1 s1)) = []
      \<and> map fst (whitelist_options (use_all_change_v1 s1)) = map fst (whitelist_options s1))
   \<and> (\<not> use_all s1 \<longrightarrow>
      use_all (step_v1 ToggleUseAll s1)
      \<and> selected_values (whitelist_options (step_v1 ToggleUseAll s1)) = [])
   \<and> (use_all s2 \<longrightarrow>
      (\<forall>opt \<in> set (titles_options (use_all_change_v2 s2)). \<not> snd opt)
      \<and> selected_values (titles_options (use_all_change_v2 s2)) = []
      \<and> map fst (titles_options (use_all_change_v2 s2)) = map fst (titles_options s2))
   \<and> (\<not> use_all s2 \<longrightarrow>
      use_all (step_v2 ToggleUseAll s2)
      \<and> selected_values (titles_options (step_v2 ToggleUseAll s2)) = [])"
  using snd_deselect_all
  by (simp add: use_all_change_v1_def use_all_change_v2_def selected_deselect_all
      values_deselect_all)

theorem use_all_checked_clears_selection_witness:
  "use_all ex_use_all_v1
   \<and> selected_values (whitelist_options ex_use_all_v1)
       = [''1. Introducci'' @ o_acute @ ''n'' @ zwsp]
   \<and> whitelist_options (use_all_change_v1 ex_use_all_v1) = fill_options TITULOS_WHITELIST
   \<and> \<not> use_all ex_folder_v1
   \<and> use_all (step_v1 ToggleUseAll ex_folder_v1)
   \<and> selected_values (whitelist_options (step_v1 ToggleUseAll ex_folder_v1)) = []
   \<and> use_all ex_upload_v2
   \<and> selected_values (titles_options (use_all_change_v2 ex_upload_v2)) = []
   \<and> \<not> use_all ex_selected_v2
   \<and> selected_values (titles_options ex_selected_v2) = [''T1'']
   \<and> use_all (step_v2 ToggleUseAll ex_selected_v2)
   \<and> selected_values (titles_options (step_v2 ToggleUseAll ex_selected_v2)) = []"
proof -
  have a: "use_all ex_use_all_v1" "\<not> use_all ex_folder_v1" "use_all ex_upload_v2"
    "\<not> use_all ex_selected_v2"
    by (simp_all add: ex_use_all_v1_def ex_folder_v1_def ex_upload_v2_def ex_selected_v2_def)
  have b: "selected_values (whitelist_options ex_use_all_v1)
             = [''1. Introducci'' @ o_acute @ ''n'' @ zwsp]"
    "whitelist_options (use_all_change_v1 ex_use_all_v1) = fill_options TITULOS_WHITELIST"
    by (simp_all add: ex_use_all_v1_def ex_folder_v1_def first_selected use_all_change_v1_def
        deselect_set_selected)
  have c: "selected_values (titles_options ex_selected_v2) = [''T1'']"
    by (simp add: ex_upload_v2_def ex_selected_v2_def selected_values_def)
  show ?thesis
    using use_all_checked_clears_selection [of ex_use_all_v1 ex_upload_v2]
      use_all_checked_clears_selection [of ex_folder_v1 ex_selected_v2] a b c
    by simp
qed

section \<open>Scans\<close>

text \<open>
  Claim C10.  In variant 1 \<open>scanUploadDir\<close> tests the directory's file list for emptiness
  before it filters by the extension \<open>.docx\<close>: an empty list sends nothing, but a list
  that is not empty and holds no \<open>.docx\<close> name passes the test, and the request to
  \<open>/api/scan-upload\<close> is sent with a form that holds the \<open>whitelist[]\<close> entries and
  no \<open>files\<close> entry.
\<close>

theorem scanUploadDir_filters_after_guard:
  "(folderInput_files s = [] \<longrightarrow> requests_of scanUploadDir_v1 s = [])
   \<and> (folderInput_files s \<noteq> [] \<and>
       (\<forall>f \<in> set (folderInput_files s). \<not> endsWith (toLowerCase (file_name f)) ''.docx'')
      \<longrightarrow> requests_of scanUploadDir_v1 s =
            [Post ''/api/scan-upload''
               (FormBody (map (\<lambda>t. (''whitelist[]'', FormText t)) TITULOS_WHITELIST))]
          \<and> pending (scanUploadDir_v1 s) = pending s @ [AfterScanUploadDir])"
proof (intro conjI impI)
  assume "folderInput_files s = []"
  then show "requests_of scanUploadDir_v1 s = []"
    by (simp add: scanUploadDir_v1_def Let_def requests_of_def log_def setBadges_v1_def
        drawFilesTable_def)
next
  assume h: "folderInput_files s \<noteq> [] \<and>
       (\<forall>f \<in> set (folderInput_files s). \<not> endsWith (toLowerCase (file_name f)) ''.docx'')"
  then have f: "filter (\<lambda>f. endsWith (toLowerCase (file_name f)) ''.docx'') (folderInput_files s) = []"
    by (simp add: filter_empty_conv)
  from h f show "requests_of scanUploadDir_v1 s =
            [Post ''/api/scan-upload''
               (FormBody (map (\<lambda>t. (''whitelist[]'', FormText t)) TITULOS_WHITELIST))]"
    by (simp add: scanUploadDir_v1_def Let_def requests_of_def log_def setBadges_v1_def
        drawFilesTable_def fetch_def)
  from h show "pending (scanUploadDir_v1 s) = pending s @ [AfterScanUploadDir]"
    by (simp add: scanUploadDir_v1_def Let_def log_def setBadges_v1_def
        drawFilesTable_def fetch_def)
qed

theorem scanUploadDir_filters_after_guard_witness:
  "folderInput_files ex_txt_folder_v1 = [File ''notes.txt'' ''x'', File ''plan.DOC'' ''y'']
   \<and> \<not> endsWith (toLowerCase ''notes.txt'') ''.docx''
   \<and> \<not> endsWith (toLowerCase ''plan.DOC'') ''.docx''
   \<and> requests_of scanUploadDir_v1 ex_txt_folder_v1 =
        [Post ''/api/scan-upload''
           (FormBody (map (\<lambda>t. (''whitelist[]'', FormText t)) TITULOS_WHITELIST))]"
proof -
  have a: "folderInput_files ex_txt_folder_v1 = [File ''notes.txt'' ''x'', File ''plan.DOC'' ''y'']"
    by (simp add: ex_txt_folder_v1_def ex_folder_v1_def)
  have b: "\<not> endsWith (toLowerCase ''notes.txt'') ''.docx''"
    "\<not> endsWith (toLowerCase ''plan.DOC'') ''.docx''"
    by (simp_all add: endsWith_def toLowerCase_def lower_char_def)
  show ?thesis
    using scanUploadDir_filters_after_guard [of ex_txt_folder_v1] a b
    by simp
qed

lemma show_int_nat: "show_int (int n) = show_nat n"
  by (simp add: show_int_def)

lemma error_line_cases:
  "res_status res < 65536 \<Longrightarrow>
   error_line err res =
     ''ERROR: '' @ (if truthy err then ToString err else show_nat (res_status res))"
  by (simp add: error_line_def js_or_def show_int_nat number_text_safe safe_status)

text \<open>
  A reply with a JSON body \<open>js\<close> whose \<open>ok\<close> is falsy.  Each of the five scan
  continuations (three in variant 1, two in variant 2) appends \<open>ERROR: \<close> followed by
  \<open>js.error || res.status\<close> to the log, that is the server's error string, or the HTTP
  status when the error is absent (or empty, which \<open>||\<close> treats alike), and changes
  nothing else: no further request is sent or awaited, and neither \<open>lastFilesMeta\<close> nor a
  token is stored.
\<close>

lemma scan_json_not_ok:
  assumes "res_json res = Some js" and "\<not> truthy (js_ok js)" and "res_status res < 65536"
  shows "(\<forall>h \<in> set [scanFolder_v1_resume, scanUpload_v1_resume, scanUploadDir_v1_resume].
            h res s1 = log (''ERROR: '' @ (if truthy (js_error js) then ToString (js_error js)
                                           else show_nat (res_status res))) s1
            \<and> log_text (h res s1) =
                log_text s1 @ ''ERROR: '' @ (if truthy (js_error js) then ToString (js_error js)
                                             else show_nat (res_status res)) @ newline
            \<and> sent (h res s1) = sent s1 \<and> pending (h res s1) = pending s1
            \<and> lastFilesMeta (h res s1) = lastFilesMeta s1
            \<and> uploadToken (h res s1) = uploadToken s1
            \<and> uploadDirToken (h res s1) = uploadDirToken s1)
       \<and> (\<forall>h \<in> set [scanFolder_v2_resume, scanUpload_v2_resume].
            h res s2 = log (''ERROR: '' @ (if truthy (js_error js) then ToString (js_error js)
                                           else show_nat (res_status res))) s2
            \<and> log_text (h res s2) =
                log_text s2 @ ''ERROR: '' @ (if truthy (js_error js) then ToString (js_error js)
                                             else show_nat (res_status res)) @ newline
            \<and> sent (h res s2) = sent s2 \<and> pending (h res s2) = pending s2
            \<and> lastFilesMeta (h res s2) = lastFilesMeta s2
            \<and> uploadToken (h res s2) = uploadToken s2)"
  using assms
  by (simp add: scanFolder_v1_resume_def scanUpload_v1_resume_def scanUploadDir_v1_resume_def
      scanFolder_v2_resume_def scanUpload_v2_resume_def error_line_cases log_def)

lemma show_nat_500: "show_nat 500 = ''500''"
  by code_simp

lemma scan_json_not_ok_examples:
  "log_text (scanFolder_v1_resume ex_error_reply ex_folder_v1)
        = ''ERROR: Carpeta no encontrada'' @ newline
   \<and> sent (scanFolder_v1_resume ex_error_reply ex_folder_v1) = []
   \<and> log_text (scanUpload_v2_resume ex_status_reply ex_upload_v2) = ''ERROR: 500'' @ newline
   \<and> uploadToken (scanUpload_v2_resume ex_status_reply ex_upload_v2) = JStr ''tok''"
proof -
  have a: "res_json ex_error_reply = Some \<lparr>js_ok = JBool False, js_error = JStr ''Carpeta no encontrada'',
                       js_token = JUndefined, js_count = JUndefined,
                       js_files_meta = None, js_titles = None\<rparr>"
    "res_status ex_error_reply = 400"
    by (simp_all add: ex_error_reply_def)
  have b: "res_json ex_status_reply = Some \<lparr>js_ok = JBool False, js_error = JUndefined,
                       js_token = JUndefined, js_count = JUndefined,
                       js_files_meta = None, js_titles = None\<rparr>"
    "res_status ex_status_reply = 500"
    by (simp_all add: ex_status_reply_def)
  have c: "log_text ex_folder_v1 = []" "sent ex_folder_v1 = []" "log_text ex_upload_v2 = []"
    "uploadToken ex_upload_v2 = JStr ''tok''"
    by (simp_all add: ex_folder_v1_def ex_upload_v2_def)
  have na: "\<not> truthy (js_ok \<lparr>js_ok = JBool False, js_error = JStr ''Carpeta no encontrada'',
                       js_token = JUndefined, js_count = JUndefined,
                       js_files_meta = None, js_titles = None\<rparr>)"
    by simp
  have nb: "\<not> truthy (js_ok \<lparr>js_ok = JBool False, js_error = JUndefined,
                       js_token = JUndefined, js_count = JUndefined,
                       js_files_meta = None, js_titles = None\<rparr>)"
    by simp
  have sa: "res_status ex_error_reply < 65536" and sb: "res_status ex_status_reply < 65536"
    by (simp_all add: a b)
  have d: "log_text (scanFolder_v1_resume ex_error_reply ex_folder_v1)
             = ''ERROR: Carpeta no encontrada'' @ newline"
    "sent (scanFolder_v1_resume ex_error_reply ex_folder_v1) = []"
    using scan_json_not_ok [OF a(1) na sa, of ex_folder_v1 ex_upload_v2]
    by (simp_all add: c log_def)
  have e: "log_text (scanUpload_v2_resume ex_status_reply ex_upload_v2) = ''ERROR: 500'' @ newline"
    "uploadToken (scanUpload_v2_resume ex_status_reply ex_upload_v2) = JStr ''tok''"
    using scan_json_not_ok [OF b(1) nb sb, of ex_folder_v1 ex_upload_v2]
    by (simp_all add: b c show_nat_500 log_def)
  show ?thesis
    using d e by simp
qed

text \<open>
  Two more facts about the scan continuations.  A reply whose body is not JSON makes
  \<open>res.json()\<close> reject: the scan handlers throw at \<open>await res.json()\<close>, before they
  test \<open>js.ok\<close>, and log nothing, while \<open>mergeNow\<close> catches the rejection
  (\<open>res.json().catch(() => ({error: res.statusText}))\<close>) and logs the status text.  In
  variant 2 an ok reply without \<open>titles\<close> throws at \<open>js.titles.length\<close>, after the
  metadata (and the token) are stored.
\<close>

lemma scan_reply_not_json:
  assumes "res_json res = None"
  shows "scanFolder_v1_resume res s1 = reject SyntaxError s1"
    and "scanUpload_v1_resume res s1 = reject SyntaxError s1"
    and "scanUploadDir_v1_resume res s1 = reject SyntaxError s1"
    and "scanFolder_v2_resume res s2 = reject SyntaxError s2"
    and "scanUpload_v2_resume res s2 = reject SyntaxError s2"
    and "log_text (reject SyntaxError s1) = log_text s1"
    and "\<not> res_ok res \<Longrightarrow>
         mergeNow_resume mode res s1 = log (error_line (JStr (res_statusText res)) res) s1"
  using assms
  by (simp_all add: scanFolder_v1_resume_def scanUpload_v1_resume_def scanUploadDir_v1_resume_def
      scanFolder_v2_resume_def scanUpload_v2_resume_def reject_def mergeNow_resume_def)

lemma scan_v2_reply_without_titles:
  assumes "res_json res = Some js" and "truthy (js_ok js)" and "js_titles js = None"
  shows "scanFolder_v2_resume res s =
           reject TypeError (s\<lparr>lastFilesMeta := files_meta_or_empty js\<rparr>)"
    and "scanUpload_v2_resume res s =
           reject TypeError (s\<lparr>uploadToken := js_token js,
                                 lastFilesMeta := files_meta_or_empty js\<rparr>)"
  using assms
  by (simp_all add: scanFolder_v2_resume_def scanUpload_v2_resume_def Let_def)

text \<open>
  Claim C7 is not met by the code for a response that is not ok and whose body is not JSON.
  Take the reply of a gateway, status 502 "Bad Gateway" with an HTML page as body, to the
  request of any of the five scan handlers.  \<open>res.json()\<close> rejects, the handler throws
  before it reaches \<open>if (!js.ok)\<close>, and the log stays as it was: neither \<open>ERROR: \<close>
  nor the HTTP status is appended (the rejection is left unhandled).  \<open>mergeNow\<close> guards
  the same call with \<open>.catch\<close> and logs \<open>ERROR: Bad Gateway\<close> for this reply.  The first
  three lines follow one scan from the click to the reply.
\<close>

theorem scan_reply_not_json_logs_nothing:
  "\<not> res_ok ex_html_reply
   \<and> sent (scanFolder_v1 ex_folder_v1) =
        [Post ''/api/scan-folder''
           (JsonBody [(''folder'', Scalar (JStr ''/data'')), (''include_subs'', Scalar (JBool True)),
                      (''whitelist'', Strings TITULOS_WHITELIST)])]
   \<and> log_text (step_v1 (Reply 0 ex_html_reply) (scanFolder_v1 ex_folder_v1))
        = log_text (scanFolder_v1 ex_folder_v1)
   \<and> unhandled (step_v1 (Reply 0 ex_html_reply) (scanFolder_v1 ex_folder_v1)) = [SyntaxError]
   \<and> log_text (scanFolder_v1_resume ex_html_reply ex_folder_v1) = log_text ex_folder_v1
   \<and> log_text (scanUpload_v1_resume ex_html_reply ex_folder_v1) = log_text ex_folder_v1
   \<and> log_text (scanUploadDir_v1_resume ex_html_reply ex_folder_v1) = log_text ex_folder_v1
   \<and> log_text (scanFolder_v2_resume ex_html_reply ex_upload_v2) = log_text ex_upload_v2
   \<and> log_text (scanUpload_v2_resume ex_html_reply ex_upload_v2) = log_text ex_upload_v2
   \<and> log_text (mergeNow_resume ''unificado'' ex_html_reply ex_folder_v1)
        = log_text ex_folder_v1 @ ''ERROR: Bad Gateway'' @ newline"
proof -
  have r: "res_json ex_html_reply = None" "res_status ex_html_reply = 502"
    "res_statusText ex_html_reply = ''Bad Gateway''"
    by (simp_all add: ex_html_reply_def)
  have p: "pending ex_folder_v1 = []" "sent ex_folder_v1 = []" "unhandled ex_folder_v1 = []"
    "folder_field ex_folder_v1 = ''/data''" "include_subs ex_folder_v1"
    by (simp_all add: ex_folder_v1_def)
  have click: "scanFolder_v1 ex_folder_v1 =
      fetch (Post ''/api/scan-folder''
           (JsonBody [(''folder'', Scalar (JStr ''/data'')), (''include_subs'', Scalar (JBool True)),
                      (''whitelist'', Strings TITULOS_WHITELIST)])) AfterScanFolder
        (log ''Escaneando carpeta en servidor...''
           (setBadges_v1 (JNum 0) (drawFilesTable []
              (ex_folder_v1\<lparr>lastSource := ''folder'', uploadToken := JNull, uploadDirToken := JNull,
                 whitelist_options := deselect_all (whitelist_options ex_folder_v1)\<rparr>))))"
    by (simp add: scanFolder_v1_def Let_def JSON_stringify_def p trim_data log_def
        setBadges_v1_def drawFilesTable_def)
  have a: "\<not> res_ok ex_html_reply"
    by (simp add: res_ok_def r)
  have b: "sent (scanFolder_v1 ex_folder_v1) =
        [Post ''/api/scan-folder''
           (JsonBody [(''folder'', Scalar (JStr ''/data'')), (''include_subs'', Scalar (JBool True)),
                      (''whitelist'', Strings TITULOS_WHITELIST)])]"
    unfolding click
    by (simp add: fetch_def log_def setBadges_v1_def drawFilesTable_def p)
  have c: "log_text (step_v1 (Reply 0 ex_html_reply) (scanFolder_v1 ex_folder_v1))
        = log_text (scanFolder_v1 ex_folder_v1)"
    "unhandled (step_v1 (Reply 0 ex_html_reply) (scanFolder_v1 ex_folder_v1)) = [SyntaxError]"
    unfolding click
    by (simp_all add: fetch_def log_def setBadges_v1_def drawFilesTable_def p take_pending_def
        scanFolder_v1_resume_def r reject_def)
  have d: "log_text (scanFolder_v1_resume ex_html_reply ex_folder_v1) = log_text ex_folder_v1"
    "log_text (scanUpload_v1_resume ex_html_reply ex_folder_v1) = log_text ex_folder_v1"
    "log_text (scanUploadDir_v1_resume ex_html_reply ex_folder_v1) = log_text ex_folder_v1"
    "log_text (scanFolder_v2_resume ex_html_reply ex_upload_v2) = log_text ex_upload_v2"
    "log_text (scanUpload_v2_resume ex_html_reply ex_upload_v2) = log_text ex_upload_v2"
    by (simp_all add: scan_reply_not_json (1-5) [OF r(1)] reject_def)
  have e: "log_text (mergeNow_resume ''unificado'' ex_html_reply ex_folder_v1)
        = log_text ex_folder_v1 @ ''ERROR: Bad Gateway'' @ newline"
    by (simp add: mergeNow_resume_def a r error_line_def js_or_def log_def)
  show ?thesis
    using a b c d e by simp
qed

section \<open>The files badge and the files table\<close>

text \<open>The decimal rendering of a number determines the number.\<close>

lemma digit_char_code: "d < 10 \<Longrightarrow> (of_char (digit_char d) :: nat) = 48 + d"
proof -
  assume "d < 10"
  then have "d = 0 \<or> d = 1 \<or> d = 2 \<or> d = 3 \<or> d = 4 \<or> d = 5 \<or> d = 6 \<or> d = 7 \<or> d = 8 \<or> d = 9"
    by arith
  then show ?thesis
    by (elim disjE) (simp_all add: digit_char_def)
qed

lemma digit_char_inj:
  assumes "a < 10" and "b < 10" and "digit_char a = digit_char b"
  shows "a = b"
proof -
  have "(of_char (digit_char a) :: nat) = (of_char (digit_char b) :: nat)"
    using assms(3) by (rule arg_cong)
  then have "48 + a = 48 + b"
    by (simp only: digit_char_code [OF assms(1)] digit_char_code [OF assms(2)])
  then show ?thesis by simp
qed

lemma digit_char_plain:
  assumes "d < 10"
  shows "digit_char d \<noteq> CHR '' '' \<and> digit_char d \<noteq> CHR ''-''"
proof (intro conjI notI)
  assume "digit_char d = CHR '' ''"
  then have "(of_char (digit_char d) :: nat) = of_char (CHR '' '')"
    by (rule arg_cong)
  then have "48 + d = (32 :: nat)"
    unfolding digit_char_code [OF assms] by simp
  then show False by simp
next
  assume "digit_char d = CHR ''-''"
  then have "(of_char (digit_char d) :: nat) = of_char (CHR ''-'')"
    by (rule arg_cong)
  then have "48 + d = (45 :: nat)"
    unfolding digit_char_code [OF assms] by simp
  then show False by simp
qed

lemma show_nat_small: "n < 10 \<Longrightarrow> show_nat n = [digit_char n]"
  by (subst show_nat.simps) simp

lemma show_nat_large:
  "\<not> n < 10 \<Longrightarrow> show_nat n = show_nat (n div 10) @ [digit_char (n mod 10)]"
  by (subst show_nat.simps) simp

lemma show_nat_not_empty: "show_nat n \<noteq> []"
  using show_nat_small [of n] show_nat_large [of n] by (cases "n < 10") simp_all

lemma show_nat_plain: "CHR '' '' \<notin> set (show_nat n) \<and> CHR ''-'' \<notin> set (show_nat n)"
proof (induction n rule: show_nat.induct)
  case (1 n)
  show ?case
  proof (cases "n < 10")
    case True
    then show ?thesis
      using digit_char_plain [of n] by (auto simp: show_nat_small)
  next
    case False
    then show ?thesis
      using "1" digit_char_plain [of "n mod 10"] show_nat_large [of n] by auto
  qed
qed

lemma show_nat_inj: "show_nat n = show_nat m \<Longrightarrow> n = m"
proof (induction n arbitrary: m rule: show_nat.induct)
  case (1 n)
  show ?case
  proof (cases "n < 10")
    case small: True
    show ?thesis
    proof (cases "m < 10")
      case True
      with small "1.prems" show ?thesis
        by (simp add: show_nat_small digit_char_inj)
    next
      case False
      with small "1.prems" show_nat_not_empty [of "m div 10"] show_nat_large [of m]
      show ?thesis
        by (simp add: show_nat_small)
    qed
  next
    case large: False
    show ?thesis
    proof (cases "m < 10")
      case True
      with large "1.prems" show_nat_not_empty [of "n div 10"] show_nat_large [of n]
      show ?thesis
        by (simp add: show_nat_small)
    next
      case False
      with large "1.prems" show_nat_large [of n] show_nat_large [of m]
      have eq: "show_nat (n div 10) = show_nat (m div 10)"
        and d: "digit_char (n mod 10) = digit_char (m mod 10)"
        by simp_all
      from "1.IH" [OF large eq] have "n div 10 = m div 10" .
      moreover from d have "n mod 10 = m mod 10"
        by (simp add: digit_char_inj)
      ultimately show ?thesis
        by (metis div_mult_mod_eq)
    qed
  qed
qed

lemma show_int_inj: "show_int a = show_int b \<Longrightarrow> a = b"
proof -
  assume eq: "show_int a = show_int b"
  have hd_plain: "\<And>n. hd (show_nat n) \<noteq> CHR ''-''"
    using show_nat_plain show_nat_not_empty by (metis hd_in_set)
  show ?thesis
  proof (cases "a < 0")
    case na: True
    show ?thesis
    proof (cases "b < 0")
      case True
      with na eq have "show_nat (nat (- a)) = show_nat (nat (- b))"
        by (simp add: show_int_def)
      then have "nat (- a) = nat (- b)" by (rule show_nat_inj)
      with na True show ?thesis by simp
    next
      case False
      with na eq have "CHR ''-'' # show_nat (nat (- a)) = show_nat (nat b)"
        by (simp add: show_int_def)
      then have "hd (show_nat (nat b)) = CHR ''-''" by (metis list.sel(1))
      with hd_plain show ?thesis by blast
    qed
  next
    case pa: False
    show ?thesis
    proof (cases "b < 0")
      case True
      with pa eq have "show_nat (nat a) = CHR ''-'' # show_nat (nat (- b))"
        by (simp add: show_int_def)
      then have "hd (show_nat (nat a)) = CHR ''-''" by (metis list.sel(1))
      with hd_plain show ?thesis by blast
    next
      case False
      with pa eq have "show_nat (nat a) = show_nat (nat b)"
        by (simp add: show_int_def)
      then have "nat a = nat b" by (rule show_nat_inj)
      with pa False show ?thesis by simp
    qed
  qed
qed

lemma show_int_no_space: "CHR '' '' \<notin> set (show_int i)"
  using show_nat_plain by (simp add: show_int_def)

lemma badge_number: "takeWhile (\<lambda>ch. ch \<noteq> CHR '' '') (show_int c @ '' archivo'' @ x) = show_int c"
proof -
  have "\<And>ch. ch \<in> set (show_int c) \<Longrightarrow> ch \<noteq> CHR '' ''"
    using show_int_no_space by blast
  then show ?thesis
    by (simp add: takeWhile_append2)
qed

lemma file_rows_drawn:
  "filter (\<lambda>r. r \<noteq> Placeholder) (files_table (drawFilesTable fm s)) = map file_row fm"
  by (induction fm) (auto simp: drawFilesTable_def file_row_def)

lemma js_or_num: "js_or (JNum c) (JNum 0) = JNum c"
  by (simp add: js_or_def)

lemma scan_ok_v1:
  assumes "res_json res = Some js" and "truthy (js_ok js)"
    and "h \<in> set [scanFolder_v1_resume, scanUpload_v1_resume, scanUploadDir_v1_resume]"
  shows "files_table (h res s) = files_table (drawFilesTable (files_meta_or_empty js) s)"
    and "badge_archivos (h res s) =
           ToString (js_or (js_count js) (JNum 0)) @ '' archivo''
           @ (if js_or (js_count js) (JNum 0) = JNum 1 then [] else ''s'')"
  using assms
  by (auto simp: scanFolder_v1_resume_def scanUpload_v1_resume_def scanUploadDir_v1_resume_def
      Let_def log_def setBadges_v1_def drawFilesTable_def)

lemma scan_ok_v2:
  assumes "res_json res = Some js" and "truthy (js_ok js)" and "js_titles js = Some ts"
    and "h \<in> set [scanFolder_v2_resume, scanUpload_v2_resume]"
  shows "files_table (h res s) = files_table (drawFilesTable (files_meta_or_empty js) s)"
    and "badge_archivos (h res s) =
           number_text (int (length (files_meta_or_empty js))) @ '' archivo''
           @ (if length (files_meta_or_empty js) = 1 then [] else ''s'')"
  using assms
  by (auto simp: scanFolder_v2_resume_def scanUpload_v2_resume_def fillTitles_def
      Let_def log_def setBadges_v2_def drawFilesTable_def)

lemma ex_reply_json:
  "res_json ex_reply =
     Some \<lparr>js_ok = JBool True, js_error = JUndefined, js_token = JStr ''t1'',
           js_count = JNum 2, js_files_meta = Some [FileMeta ''a.docx'' 1 [''T1'']],
           js_titles = Some [''T1'']\<rparr>"
  by (simp add: ex_reply_def)

lemma ex_file_row:
  "file_row (FileMeta ''a.docx'' 1 [''T1'']) = FileRow ''a.docx'' ''bg-primary'' 1 ''a.docx''"
  by (simp add: file_row_def encodeURIComponent_def uri_unreserved_def)

lemma show_int_small: "show_int 1 = ''1''" "show_int 2 = ''2''"
  by (simp_all add: show_int_def show_nat.simps digit_char_def)

lemma files_table_empty: "files_table (drawFilesTable [] s) = [Placeholder]"
  by (simp add: drawFilesTable_def)

text \<open>
  Claim C8, as it is stated, fails in variant 2: there \<open>fillTitles\<close> sets the files badge
  from \<open>lastFilesMeta.length\<close>, not from \<open>count\<close>.  For the reply
  \<open>{ok: true, count: 2, files_meta: [one entry], titles: ["T1"]}\<close> to \<open>scanFolder\<close> the
  badge reads "1 archivo" and the table has one file row: badge and rows agree although
  \<open>count\<close> differs from the length of \<open>files_meta\<close>.
\<close>

theorem files_badge_v2_counterexample:
  "truthy (js_ok (the (res_json ex_reply)))
   \<and> js_count (the (res_json ex_reply)) = JNum 2
   \<and> length (files_meta_or_empty (the (res_json ex_reply))) = 1
   \<and> badge_archivos ex_after_scan_v2 = ''1 archivo''
   \<and> badge_archivos ex_after_scan_v2 \<noteq> ''2 archivos''
   \<and> files_table ex_after_scan_v2 = [FileRow ''a.docx'' ''bg-primary'' 1 ''a.docx'']"
proof -
  have p: "pending (loaded_v2 blank_v2) = []"
    by (simp add: loaded_v2_def)
  have s: "ex_after_scan_v2 =
      scanFolder_v2_resume ex_reply
        (take_pending 0 (scanFolder_v2 ((loaded_v2 blank_v2)\<lparr>folder_field := ''/data''\<rparr>)))"
    by (simp add: ex_after_scan_v2_def scanFolder_v2_def Let_def fetch_def log_def
        setBadges_v2_def drawFilesTable_def p)
  show ?thesis
    unfolding s
    by (simp add: ex_reply_json scanFolder_v2_resume_def files_meta_or_empty_def Let_def
        fillTitles_def setBadges_v2_def drawFilesTable_def log_def take_pending_def
        number_text_small ex_file_row)
qed

text \<open>
  Claim C8, amended.  Take a successful scan: a JSON reply with a truthy \<open>ok\<close> to any of
  the three scans of variant 1, or one that carries \<open>titles\<close> to either scan of variant 2.
  The file rows of the table are then the rows of the entries of \<open>files_meta\<close>, one per
  entry, and for no entry the table holds only the placeholder row.  In variant 1 the files
  badge shows the reply's \<open>count\<close> (\<open>0\<close> when it is absent): for a \<open>count\<close> that
  is a safe integer the badge is its decimal numeral followed by "archivo(s)", so when it
  differs from the length of \<open>files_meta\<close> the number on the badge is not the number of
  file rows.  In variant 2 the number on the badge is the number of file rows, whatever
  \<open>count\<close> says (\<open>files_meta\<close> is a JavaScript array, of fewer than \<open>2^32\<close>
  entries).  Nothing is said here of a reply to variant 2 that is ok and has no \<open>titles\<close>.
\<close>

theorem files_badge_and_rows:
  assumes "res_json res = Some js" and "truthy (js_ok js)"
  shows "(\<forall>h \<in> set [scanFolder_v1_resume, scanUpload_v1_resume, scanUploadDir_v1_resume].
            filter (\<lambda>r. r \<noteq> Placeholder) (files_table (h res s1))
              = map file_row (files_meta_or_empty js)
            \<and> (files_meta_or_empty js = [] \<longrightarrow> files_table (h res s1) = [Placeholder])
            \<and> (js_count js = JUndefined \<longrightarrow> badge_archivos (h res s1) = ''0 archivos'')
            \<and> (\<forall>c. js_count js = JNum c \<and> safe_integer c \<longrightarrow>
                  badge_archivos (h res s1)
                    = show_int c @ '' archivo'' @ (if c = 1 then [] else ''s'')
                  \<and> takeWhile (\<lambda>ch. ch \<noteq> CHR '' '') (badge_archivos (h res s1)) = show_int c
                  \<and> (c \<noteq> int (length (files_meta_or_empty js)) \<longrightarrow>
                       takeWhile (\<lambda>ch. ch \<noteq> CHR '' '') (badge_archivos (h res s1))
                       \<noteq> show_int (int (length (filter (\<lambda>r. r \<noteq> Placeholder)
                                                      (files_table (h res s1))))))))
       \<and> (\<forall>h \<in> set [scanFolder_v2_resume, scanUpload_v2_resume].
            \<forall>ts. js_titles js = Some ts \<longrightarrow>
              filter (\<lambda>r. r \<noteq> Placeholder) (files_table (h res s2))
                = map file_row (files_meta_or_empty js)
              \<and> (files_meta_or_empty js = [] \<longrightarrow> files_table (h res s2) = [Placeholder])
              \<and> (length (files_meta_or_empty js) < 4294967296 \<longrightarrow>
                    badge_archivos (h res s2)
                      = show_nat (length (files_meta_or_empty js)) @ '' archivo''
                        @ (if length (files_meta_or_empty js) = 1 then [] else ''s'')
                    \<and> takeWhile (\<lambda>ch. ch \<noteq> CHR '' '') (badge_archivos (h res s2))
                        = show_int (int (length (filter (\<lambda>r. r \<noteq> Placeholder)
                                                       (files_table (h res s2)))))))"
proof (intro conjI ballI allI impI)
  fix h :: "response \<Rightarrow> page_v1 \<Rightarrow> page_v1"
  assume h: "h \<in> set [scanFolder_v1_resume, scanUpload_v1_resume, scanUploadDir_v1_resume]"
  note t = scan_ok_v1 (1) [OF assms h, of s1]
  note b = scan_ok_v1 (2) [OF assms h, of s1]
  show rows: "filter (\<lambda>r. r \<noteq> Placeholder) (files_table (h res s1))
      = map file_row (files_meta_or_empty js)"
    unfolding t by (rule file_rows_drawn)
  { assume "files_meta_or_empty js = []"
    then show "files_table (h res s1) = [Placeholder]"
      unfolding t by (simp add: files_table_empty) }
  { assume "js_count js = JUndefined"
    then show "badge_archivos (h res s1) = ''0 archivos''"
      unfolding b by (simp add: js_or_def number_text_small) }
  { fix c
    assume cs: "js_count js = JNum c \<and> safe_integer c"
    then have c: "js_count js = JNum c" and safe: "number_text c = show_int c"
      by (simp_all add: number_text_safe)
    show shown: "badge_archivos (h res s1) = show_int c @ '' archivo'' @ (if c = 1 then [] else ''s'')"
      unfolding b c js_or_num by (simp add: safe)
    show num: "takeWhile (\<lambda>ch. ch \<noteq> CHR '' '') (badge_archivos (h res s1)) = show_int c"
      unfolding shown by (rule badge_number)
    assume "c \<noteq> int (length (files_meta_or_empty js))"
    then show "takeWhile (\<lambda>ch. ch \<noteq> CHR '' '') (badge_archivos (h res s1))
        \<noteq> show_int (int (length (filter (\<lambda>r. r \<noteq> Placeholder) (files_table (h res s1)))))"
      unfolding num rows using show_int_inj by auto }
next
  fix h :: "response \<Rightarrow> page_v2 \<Rightarrow> page_v2" and ts
  assume h: "h \<in> set [scanFolder_v2_resume, scanUpload_v2_resume]"
    and ts: "js_titles js = Some ts"
  note t = scan_ok_v2 (1) [OF assms ts h, of s2]
  note b = scan_ok_v2 (2) [OF assms ts h, of s2]
  show rows: "filter (\<lambda>r. r \<noteq> Placeholder) (files_table (h res s2))
      = map file_row (files_meta_or_empty js)"
    unfolding t by (rule file_rows_drawn)
  { assume "files_meta_or_empty js = []"
    then show "files_table (h res s2) = [Placeholder]"
      unfolding t by (simp add: files_table_empty) }
  { assume "length (files_meta_or_empty js) < 4294967296"
    then have safe: "number_text (int (length (files_meta_or_empty js)))
        = show_int (int (length (files_meta_or_empty js)))"
      by (simp add: number_text_safe safe_length)
    show shown: "badge_archivos (h res s2)
        = show_nat (length (files_meta_or_empty js)) @ '' archivo''
          @ (if length (files_meta_or_empty js) = 1 then [] else ''s'')"
      unfolding b safe by (simp add: show_int_nat)
    show "takeWhile (\<lambda>ch. ch \<noteq> CHR '' '') (badge_archivos (h res s2))
        = show_int (int (length (filter (\<lambda>r. r \<noteq> Placeholder) (files_table (h res s2)))))"
      by (simp only: rows b safe length_map badge_number) }
qed

theorem files_badge_and_rows_witness:
  "res_json ex_reply \<noteq> None
   \<and> truthy (js_ok (the (res_json ex_reply)))
   \<and> js_count (the (res_json ex_reply)) = JNum 2 \<and> safe_integer 2
   \<and> js_titles (the (res_json ex_reply)) \<noteq> None
   \<and> length (files_meta_or_empty (the (res_json ex_reply))) = 1
   \<and> badge_archivos (scanFolder_v1_resume ex_reply ex_folder_v1) = ''2 archivos''
   \<and> filter (\<lambda>r. r \<noteq> Placeholder) (files_table (scanFolder_v1_resume ex_reply ex_folder_v1))
       = [FileRow ''a.docx'' ''bg-primary'' 1 ''a.docx'']
   \<and> takeWhile (\<lambda>ch. ch \<noteq> CHR '' '') (badge_archivos (scanFolder_v1_resume ex_reply ex_folder_v1))
       \<noteq> show_int 1
   \<and> filter (\<lambda>r. r \<noteq> Placeholder) (files_table (scanUpload_v2_resume ex_reply ex_upload_v2))
       = [FileRow ''a.docx'' ''bg-primary'' 1 ''a.docx'']
   \<and> badge_archivos (scanUpload_v2_resume ex_reply ex_upload_v2) = ''1 archivo''
   \<and> takeWhile (\<lambda>ch. ch \<noteq> CHR '' '') (badge_archivos (scanUpload_v2_resume ex_reply ex_upload_v2))
       = show_int 1"
proof -
  have ok: "truthy (js_ok \<lparr>js_ok = JBool True, js_error = JUndefined, js_token = JStr ''t1'',
           js_count = JNum 2, js_files_meta = Some [FileMeta ''a.docx'' 1 [''T1'']],
           js_titles = Some [''T1'']\<rparr>)"
    by simp
  have one: "show_nat (Suc 0) = ''1''"
    by (simp add: show_nat.simps digit_char_def)
  show ?thesis
    using files_badge_and_rows [OF ex_reply_json ok, of ex_folder_v1 ex_upload_v2]
    by (simp add: ex_reply_json files_meta_or_empty_def show_int_small ex_file_row
        safe_integer_def one)
qed

section \<open>The two tokens of variant 1\<close>

lemma tokens_log [simp]:
  "uploadToken (log m s) = uploadToken s" "uploadDirToken (log m s) = uploadDirToken s"
  "pending (log m s) = pending s"
  by (simp_all add: log_def)

lemma tokens_fetch [simp]:
  "uploadToken (fetch r k s) = uploadToken s" "uploadDirToken (fetch r k s) = uploadDirToken s"
  "pending (fetch r k s) = pending s @ [k]"
  by (simp_all add: fetch_def)

lemma tokens_draw [simp]:
  "uploadToken (drawFilesTable fm s) = uploadToken s"
  "uploadDirToken (drawFilesTable fm s) = uploadDirToken s"
  "pending (drawFilesTable fm s) = pending s"
  "uploadToken (setBadges_v1 c s) = uploadToken s"
  "uploadDirToken (setBadges_v1 c s) = uploadDirToken s"
  "pending (setBadges_v1 c s) = pending s"
  by (simp_all add: drawFilesTable_def setBadges_v1_def)

lemma tokens_reject [simp]:
  "uploadToken (reject e s) = uploadToken s" "uploadDirToken (reject e s) = uploadDirToken s"
  "pending (reject e s) = pending s"
  by (simp_all add: reject_def)

lemma tokens_take_pending [simp]:
  "uploadToken (take_pending i s) = uploadToken s"
  "uploadDirToken (take_pending i s) = uploadDirToken s"
  "pending (take_pending i s) = take i (pending s) @ drop (Suc i) (pending s)"
  by (simp_all add: take_pending_def)

lemma mergeNow_v1_tokens:
  "uploadToken (mergeNow_v1 s) = uploadToken s \<and> uploadDirToken (mergeNow_v1 s) = uploadDirToken s
   \<and> (pending (mergeNow_v1 s) = pending s
       \<or> pending (mergeNow_v1 s) = pending s @ [AfterMerge (mode_radio s)])"
  by (simp add: mergeNow_v1_def Let_def send_merge_def)

lemma serial_inv_click:
  assumes "serial_inv s" and "pending s = []" and "is_click e"
  shows "serial_inv (step_v1 e s)"
proof (cases e)
  case ClickScanFolder
  with assms show ?thesis
    by (simp add: serial_inv_def scanFolder_v1_def Let_def)
next
  case ClickScanUpload
  with assms show ?thesis
    by (simp add: serial_inv_def scanUpload_v1_def Let_def)
next
  case ClickScanUploadDir
  with assms show ?thesis
    by (simp add: serial_inv_def scanUploadDir_v1_def Let_def)
next
  case ClickMerge
  with assms mergeNow_v1_tokens [of s] show ?thesis
    by (auto simp: serial_inv_def)
next
  case ClickClean
  with assms show ?thesis
    by (simp add: serial_inv_def cleanup_v1_def Let_def)
qed (use assms in simp_all)

lemma resume_v1_inv:
  assumes "uploadToken s = JNull \<or> uploadDirToken s = JNull"
    and "k = AfterScanUpload \<Longrightarrow> uploadDirToken s = JNull"
    and "k = AfterScanUploadDir \<Longrightarrow> uploadToken s = JNull"
    and "pending s = []"
  shows "serial_inv (resume_v1 k res s)"
proof (cases k)
  case AfterScanFolder
  with assms show ?thesis
    by (simp add: serial_inv_def scanFolder_v1_resume_def Let_def split: option.splits)
next
  case AfterScanUpload
  with assms show ?thesis
    by (simp add: serial_inv_def scanUpload_v1_resume_def Let_def split: option.splits)
next
  case AfterScanUploadDir
  with assms show ?thesis
    by (simp add: serial_inv_def scanUploadDir_v1_resume_def Let_def split: option.splits)
next
  case (AfterMerge mode)
  with assms show ?thesis
    by (simp add: serial_inv_def mergeNow_resume_def Let_def log_def)
next
  case AfterCleanup
  with assms show ?thesis
    by (simp add: serial_inv_def cleanup_v1_resume_def)
qed

lemma serial_inv_other:
  assumes "serial_inv s" and "\<not> is_click e"
  shows "serial_inv (step_v1 e s)"
proof (cases e)
  case (Reply i res)
  show ?thesis
  proof (cases "i < length (pending s)")
    case False
    with Reply assms show ?thesis by simp
  next
    case True
    with assms(1) have i: "i = 0" and one: "length (pending s) = 1"
      by (auto simp: serial_inv_def)
    then obtain k where k: "pending s = [k]"
      by (cases "pending s") auto
    from assms(1) k have inv: "uploadToken s = JNull \<or> uploadDirToken s = JNull"
      "k = AfterScanUpload \<Longrightarrow> uploadDirToken s = JNull"
      "k = AfterScanUploadDir \<Longrightarrow> uploadToken s = JNull"
      by (auto simp: serial_inv_def split: if_splits)
    have "serial_inv (resume_v1 k res (take_pending 0 s))"
      by (rule resume_v1_inv) (use inv k in simp_all)
    with Reply i k show ?thesis by simp
  qed
next
  case (Failure i)
  show ?thesis
  proof (cases "i < length (pending s)")
    case False
    with Failure assms show ?thesis by simp
  next
    case True
    with assms(1) have i: "i = 0" and one: "length (pending s) = 1"
      by (auto simp: serial_inv_def)
    then obtain k where k: "pending s = [k]"
      by (cases "pending s") auto
    with Failure i assms(1) show ?thesis
      by (simp add: serial_inv_def)
  qed
next
  case ToggleUseAll
  with assms show ?thesis
    by (simp add: serial_inv_def use_all_change_v1_def)
qed (use assms in \<open>simp_all add: serial_inv_def\<close>)

lemma serial_inv_run:
  "serial_v1 evs s \<Longrightarrow> serial_inv s \<Longrightarrow> serial_inv (run_v1 evs s)"
proof (induction evs arbitrary: s)
  case Nil
  then show ?case by simp
next
  case (Cons e evs)
  from Cons.prems have "serial_inv (step_v1 e s)"
    by (cases "is_click e") (simp_all add: serial_inv_click serial_inv_other)
  with Cons show ?case by simp
qed

lemma serial_inv_loaded: "serial_inv (loaded_v1 d)"
  by (simp add: serial_inv_def loaded_v1_def fillWhitelist_def)

lemma scan_click_nulls:
  "uploadToken (scanFolder_v1 s) = JNull" "uploadDirToken (scanFolder_v1 s) = JNull"
  "uploadDirToken (scanUpload_v1 s) = JNull" "uploadToken (scanUploadDir_v1 s) = JNull"
  by (simp_all add: scanFolder_v1_def scanUpload_v1_def scanUploadDir_v1_def Let_def)

lemma ex_token_reply_json:
  "res_json (ex_token_reply t) =
     Some \<lparr>js_ok = JBool True, js_error = JUndefined, js_token = JStr t,
           js_count = JNum 1, js_files_meta = Some [FileMeta ''a.docx'' 1 [''T1'']],
           js_titles = None\<rparr>"
  by (simp add: ex_token_reply_def)

lemma scan_resume_tokens:
  "uploadToken (scanUpload_v1_resume (ex_token_reply t) s) = JStr t"
  "uploadDirToken (scanUpload_v1_resume (ex_token_reply t) s) = uploadDirToken s"
  "pending (scanUpload_v1_resume (ex_token_reply t) s) = pending s"
  "uploadToken (scanUploadDir_v1_resume (ex_token_reply t) s) = uploadToken s"
  "uploadDirToken (scanUploadDir_v1_resume (ex_token_reply t) s) = JStr t"
  "pending (scanUploadDir_v1_resume (ex_token_reply t) s) = pending s"
  by (simp_all add: scanUpload_v1_resume_def scanUploadDir_v1_resume_def ex_token_reply_json
      Let_def)

lemma scan_click_tokens:
  "files_input s \<noteq> [] \<Longrightarrow> pending (scanUpload_v1 s) = pending s @ [AfterScanUpload]"
  "uploadToken (scanUpload_v1 s) = uploadToken s"
  "folderInput_files s \<noteq> [] \<Longrightarrow> pending (scanUploadDir_v1 s) = pending s @ [AfterScanUploadDir]"
  "uploadDirToken (scanUploadDir_v1 s) = uploadDirToken s"
  "files_input (scanUploadDir_v1 s) = files_input s"
  "folderInput_files (scanUpload_v1 s) = folderInput_files s"
  by (simp_all add: scanUpload_v1_def scanUploadDir_v1_def Let_def log_def fetch_def
      setBadges_v1_def drawFilesTable_def)

lemma inputs_kept:
  "folderInput_files (scanUpload_v1_resume (ex_token_reply t) s) = folderInput_files s"
  "folderInput_files (take_pending i s) = folderInput_files s"
  "files_input (take_pending i s) = files_input s"
  by (simp_all add: scanUpload_v1_resume_def ex_token_reply_json Let_def log_def
      setBadges_v1_def drawFilesTable_def take_pending_def)

lemma loaded_pending: "pending (loaded_v1 d) = []" "uploadToken (loaded_v1 d) = JNull"
  "uploadDirToken (loaded_v1 d) = JNull"
  by (simp_all add: loaded_v1_def fillWhitelist_def)

text \<open>
  Claim C9, as it is stated, fails: the handlers are \<open>async\<close> and nothing keeps two scans
  from overlapping.  Click "scan upload", click "scan folder upload" before the first reply
  arrives, then let both replies arrive: \<open>scanUpload\<close> stores its token after
  \<open>scanUploadDir\<close> has set \<open>uploadToken\<close> to \<open>null\<close>, and \<open>scanUploadDir\<close> stores
  its own.  No handler is running any more and both tokens are set.
\<close>

theorem tokens_both_set_counterexample:
  "uploadToken (run_v1 overlapping_scans (loaded_v1 blank_v1)) = JStr ''t1''
   \<and> uploadDirToken (run_v1 overlapping_scans (loaded_v1 blank_v1)) = JStr ''t2''
   \<and> pending (run_v1 overlapping_scans (loaded_v1 blank_v1)) = []
   \<and> \<not> serial_v1 overlapping_scans (loaded_v1 blank_v1)"
  by (simp add: overlapping_scans_def scan_resume_tokens scan_click_tokens scan_click_nulls
      loaded_pending)

text \<open>
  Claim C9, amended.  In variant 1, along every run from the loaded page in which no button
  is clicked while a reply is awaited (each handler comes to its end before the next
  starts), at most one of \<open>uploadToken\<close> and \<open>uploadDirToken\<close> is not \<open>null\<close>.  In
  every state \<open>scanFolder\<close> sets both to \<open>null\<close>, \<open>scanUpload\<close> sets
  \<open>uploadDirToken\<close> to \<open>null\<close> and \<open>scanUploadDir\<close> sets \<open>uploadToken\<close> to
  \<open>null\<close> before their requests, and the continuation of \<open>cleanup\<close> sets both to
  \<open>null\<close>.
\<close>

theorem tokens_exclusive_in_serial_runs:
  "(serial_v1 evs (loaded_v1 d) \<longrightarrow>
      uploadToken (run_v1 evs (loaded_v1 d)) = JNull
      \<or> uploadDirToken (run_v1 evs (loaded_v1 d)) = JNull)
   \<and> uploadToken (scanFolder_v1 s) = JNull \<and> uploadDirToken (scanFolder_v1 s) = JNull
   \<and> uploadDirToken (scanUpload_v1 s) = JNull
   \<and> uploadToken (scanUploadDir_v1 s) = JNull
   \<and> uploadToken (cleanup_v1_resume res s) = JNull
   \<and> uploadDirToken (cleanup_v1_resume res s) = JNull"
proof (intro conjI impI)
  assume "serial_v1 evs (loaded_v1 d)"
  then have "serial_inv (run_v1 evs (loaded_v1 d))"
    using serial_inv_loaded by (rule serial_inv_run)
  then show "uploadToken (run_v1 evs (loaded_v1 d)) = JNull
      \<or> uploadDirToken (run_v1 evs (loaded_v1 d)) = JNull"
    by (simp add: serial_inv_def)
qed (simp_all add: scan_click_nulls cleanup_v1_resume_def)

theorem tokens_exclusive_in_serial_runs_witness:
  "serial_v1 serial_scans (loaded_v1 blank_v1)
   \<and> uploadToken (run_v1 serial_scans (loaded_v1 blank_v1)) = JNull
   \<and> uploadDirToken (run_v1 serial_scans (loaded_v1 blank_v1)) = JStr ''t2''"
proof -
  have a: "serial_v1 serial_scans (loaded_v1 blank_v1)"
    by (simp add: serial_scans_def scan_resume_tokens scan_click_tokens scan_click_nulls
        loaded_pending inputs_kept)
  have b: "uploadDirToken (run_v1 serial_scans (loaded_v1 blank_v1)) = JStr ''t2''"
    by (simp add: serial_scans_def scan_resume_tokens scan_click_tokens scan_click_nulls
        loaded_pending inputs_kept)
  from tokens_exclusive_in_serial_runs [of serial_scans blank_v1] a b
  have "uploadToken (run_v1 serial_scans (loaded_v1 blank_v1)) = JNull"
    by simp
  with a b show ?thesis by simp
qed

section \<open>Cleanup\<close>

lemma cleanup_v1_none:
  "\<not> truthy (uploadToken s) \<Longrightarrow> \<not> truthy (uploadDirToken s) \<Longrightarrow>
   cleanup_v1 s = log msg_nothing_to_clean s"
  by (simp add: cleanup_v1_def Let_def js_or_def)

lemma cleanup_v1_held:
  "truthy (uploadToken s) \<or> truthy (uploadDirToken s) \<Longrightarrow>
   cleanup_v1 s =
     fetch (Post ''/api/cleanup''
        (JsonBody [(''token'', Scalar (if truthy (uploadToken s) then uploadToken s
                                       else uploadDirToken s))]))
       AfterCleanup s"
  by (auto simp: cleanup_v1_def Let_def js_or_def JSON_stringify_def)

lemma cleanup_v2_held:
  "truthy (uploadToken s) \<Longrightarrow>
   cleanup_v2 s =
     fetch (Post ''/api/cleanup'' (JsonBody [(''token'', Scalar (uploadToken s))])) AfterCleanup s"
  by (auto simp: cleanup_v2_def JSON_stringify_def)

lemma requests_of_fetch: "h s = fetch req k s \<Longrightarrow> requests_of h s = [req]"
  by (simp add: requests_of_def fetch_def)

lemma reply_after_fetch_v1:
  "step_v1 (Reply (length (pending s)) res) (fetch req k s) = resume_v1 k res (s\<lparr>sent := sent s @ [req]\<rparr>)"
  by (simp add: fetch_def take_pending_def)

lemma reply_after_fetch_v2:
  "step_v2 (Reply (length (pending s)) res) (fetch req k s) = resume_v2 k res (s\<lparr>sent := sent s @ [req]\<rparr>)"
  by (simp add: fetch_def take_pending_def)

lemma failure_after_fetch_v1:
  "step_v1 (Failure (length (pending s))) (fetch req k s) = reject TypeError (s\<lparr>sent := sent s @ [req]\<rparr>)"
  by (simp add: fetch_def take_pending_def)

lemma failure_after_fetch_v2:
  "step_v2 (Failure (length (pending s))) (fetch req k s) = reject TypeError (s\<lparr>sent := sent s @ [req]\<rparr>)"
  by (simp add: fetch_def take_pending_def)

lemma ex_scanned_v1_tokens:
  "uploadToken ex_scanned_v1 = JStr ''t1''" "uploadDirToken ex_scanned_v1 = JNull"
  "pending ex_scanned_v1 = []"
  by (simp_all add: ex_scanned_v1_def scanned_upload_def scan_resume_tokens scan_click_tokens
      scan_click_nulls loaded_pending)

text \<open>
  Claim C4, as it is stated, fails when the request of \<open>cleanup\<close> gets no response.  The
  handler is \<open>await fetch(...)\<close> followed by the two assignments and the log line, with
  no \<open>try\<close> around them: when \<open>fetch\<close> rejects (the server cannot be reached) the
  handler ends at the \<open>await\<close>.  On the page that holds the token \<open>t1\<close> of a scan,
  a click on "clean" posts the token, the request fails, and the page still holds \<open>t1\<close>;
  nothing is logged.
\<close>

theorem cleanup_request_fails_counterexample:
  "truthy (uploadToken ex_scanned_v1)
   \<and> requests_of cleanup_v1 ex_scanned_v1 =
        [Post ''/api/cleanup'' (JsonBody [(''token'', Scalar (JStr ''t1''))])]
   \<and> uploadToken (run_v1 [ClickClean, Failure 0] ex_scanned_v1) = JStr ''t1''
   \<and> pending (run_v1 [ClickClean, Failure 0] ex_scanned_v1) = []
   \<and> log_text (run_v1 [ClickClean, Failure 0] ex_scanned_v1) = log_text ex_scanned_v1"
proof -
  have held: "truthy (uploadToken ex_scanned_v1) \<or> truthy (uploadDirToken ex_scanned_v1)"
    by (simp add: ex_scanned_v1_tokens)
  note c = cleanup_v1_held [OF held]
  have r: "run_v1 [ClickClean, Failure 0] ex_scanned_v1
      = step_v1 (Failure (length (pending ex_scanned_v1))) (cleanup_v1 ex_scanned_v1)"
    by (simp add: ex_scanned_v1_tokens)
  have q: "requests_of cleanup_v1 ex_scanned_v1 =
        [Post ''/api/cleanup'' (JsonBody [(''token'', Scalar (JStr ''t1''))])]"
    using requests_of_fetch [of cleanup_v1, OF c] by (simp add: ex_scanned_v1_tokens)
  have e: "uploadToken (run_v1 [ClickClean, Failure 0] ex_scanned_v1) = JStr ''t1''"
    "pending (run_v1 [ClickClean, Failure 0] ex_scanned_v1) = []"
    "log_text (run_v1 [ClickClean, Failure 0] ex_scanned_v1) = log_text ex_scanned_v1"
    unfolding r c failure_after_fetch_v1
    by (simp_all add: reject_def ex_scanned_v1_tokens)
  show ?thesis
    using q e by (simp add: ex_scanned_v1_tokens)
qed

text \<open>
  Claim C4, amended.  In every state, in both variants: when no token is held (falsy, as
  \<open>!token\<close> tests), \<open>cleanup\<close> gives nothing to \<open>fetch\<close> and only logs "No hay
  subidas por limpiar."; when a token is held it POSTs that token to \<open>/api/cleanup\<close> (in
  variant 1 \<open>uploadToken\<close> if it is held, else \<open>uploadDirToken\<close>).  When the response
  to that request arrives, whatever its status, the token variables are \<open>null\<close> again
  (both of them in variant 1) and "Subidas temporales limpiadas." is logged.  When the
  request fails instead, the token variables stay as they were and nothing is logged.
\<close>

theorem cleanup_token_handling:
  "(\<not> truthy (uploadToken s1) \<and> \<not> truthy (uploadDirToken s1) \<longrightarrow>
       cleanup_v1 s1 = log msg_nothing_to_clean s1 \<and> requests_of cleanup_v1 s1 = [])
   \<and> (truthy (uploadToken s1) \<or> truthy (uploadDirToken s1) \<longrightarrow>
       requests_of cleanup_v1 s1 =
         [Post ''/api/cleanup''
            (JsonBody [(''token'', Scalar (if truthy (uploadToken s1) then uploadToken s1
                                           else uploadDirToken s1))])]
       \<and> (\<forall>res. let s' = step_v1 (Reply (length (pending s1)) res) (cleanup_v1 s1)
            in uploadToken s' = JNull \<and> uploadDirToken s' = JNull \<and> pending s' = pending s1
               \<and> log_text s' = log_text s1 @ msg_cleaned @ newline)
       \<and> (let s' = step_v1 (Failure (length (pending s1))) (cleanup_v1 s1)
          in uploadToken s' = uploadToken s1 \<and> uploadDirToken s' = uploadDirToken s1
             \<and> pending s' = pending s1 \<and> log_text s' = log_text s1
             \<and> unhandled s' = unhandled s1 @ [TypeError]))
   \<and> (\<not> truthy (uploadToken s2) \<longrightarrow>
       cleanup_v2 s2 = log msg_nothing_to_clean s2 \<and> requests_of cleanup_v2 s2 = [])
   \<and> (truthy (uploadToken s2) \<longrightarrow>
       requests_of cleanup_v2 s2 = [Post ''/api/cleanup'' (JsonBody [(''token'', Scalar (uploadToken s2))])]
       \<and> (\<forall>res. let s' = step_v2 (Reply (length (pending s2)) res) (cleanup_v2 s2)
            in uploadToken s' = JNull \<and> pending s' = pending s2
               \<and> log_text s' = log_text s2 @ msg_cleaned @ newline)
       \<and> (let s' = step_v2 (Failure (length (pending s2))) (cleanup_v2 s2)
          in uploadToken s' = uploadToken s2 \<and> pending s' = pending s2
             \<and> log_text s' = log_text s2 \<and> unhandled s' = unhandled s2 @ [TypeError]))"
proof (intro conjI impI allI)
  assume "\<not> truthy (uploadToken s1) \<and> \<not> truthy (uploadDirToken s1)"
  then show "cleanup_v1 s1 = log msg_nothing_to_clean s1" and "requests_of cleanup_v1 s1 = []"
    by (simp_all add: cleanup_v1_none requests_of_blocked [of cleanup_v1])
next
  assume h: "truthy (uploadToken s1) \<or> truthy (uploadDirToken s1)"
  show "requests_of cleanup_v1 s1 =
         [Post ''/api/cleanup''
            (JsonBody [(''token'', Scalar (if truthy (uploadToken s1) then uploadToken s1
                                           else uploadDirToken s1))])]"
    by (rule requests_of_fetch [of cleanup_v1, OF cleanup_v1_held [OF h]])
  show "let s' = step_v1 (Failure (length (pending s1))) (cleanup_v1 s1)
        in uploadToken s' = uploadToken s1 \<and> uploadDirToken s' = uploadDirToken s1
           \<and> pending s' = pending s1 \<and> log_text s' = log_text s1
           \<and> unhandled s' = unhandled s1 @ [TypeError]"
    unfolding cleanup_v1_held [OF h] failure_after_fetch_v1
    by (simp add: reject_def)
  fix res
  show "let s' = step_v1 (Reply (length (pending s1)) res) (cleanup_v1 s1)
        in uploadToken s' = JNull \<and> uploadDirToken s' = JNull \<and> pending s' = pending s1
           \<and> log_text s' = log_text s1 @ msg_cleaned @ newline"
    unfolding cleanup_v1_held [OF h] reply_after_fetch_v1
    by (simp add: cleanup_v1_resume_def log_def)
next
  assume "\<not> truthy (uploadToken s2)"
  then show "cleanup_v2 s2 = log msg_nothing_to_clean s2" and "requests_of cleanup_v2 s2 = []"
    by (simp_all add: cleanup_v2_def requests_of_def log_def)
next
  assume h: "truthy (uploadToken s2)"
  show "requests_of cleanup_v2 s2 = [Post ''/api/cleanup'' (JsonBody [(''token'', Scalar (uploadToken s2))])]"
    by (rule requests_of_fetch [of cleanup_v2, OF cleanup_v2_held [OF h]])
  show "let s' = step_v2 (Failure (length (pending s2))) (cleanup_v2 s2)
        in uploadToken s' = uploadToken s2 \<and> pending s' = pending s2
           \<and> log_text s' = log_text s2 \<and> unhandled s' = unhandled s2 @ [TypeError]"
    unfolding cleanup_v2_held [OF h] failure_after_fetch_v2
    by (simp add: reject_def)
  fix res
  show "let s' = step_v2 (Reply (length (pending s2)) res) (cleanup_v2 s2)
        in uploadToken s' = JNull \<and> pending s' = pending s2
           \<and> log_text s' = log_text s2 @ msg_cleaned @ newline"
    unfolding cleanup_v2_held [OF h] reply_after_fetch_v2
    by (simp add: cleanup_v2_resume_def log_def)
qed

theorem cleanup_token_handling_witness:
  "\<not> truthy (uploadToken ex_folder_v1) \<and> \<not> truthy (uploadDirToken ex_folder_v1)
   \<and> requests_of cleanup_v1 ex_folder_v1 = []
   \<and> log_text (cleanup_v1 ex_folder_v1) = msg_nothing_to_clean @ newline
   \<and> truthy (uploadDirToken ex_dir_token_v1)
   \<and> requests_of cleanup_v1 ex_dir_token_v1 =
        [Post ''/api/cleanup'' (JsonBody [(''token'', Scalar (JStr ''tok''))])]
   \<and> uploadDirToken (step_v1 (Reply 0 ex_reply) (cleanup_v1 ex_dir_token_v1)) = JNull
   \<and> log_text (step_v1 (Reply 0 ex_reply) (cleanup_v1 ex_dir_token_v1)) = msg_cleaned @ newline
   \<and> uploadDirToken (step_v1 (Failure 0) (cleanup_v1 ex_dir_token_v1)) = JStr ''tok''
   \<and> log_text (step_v1 (Failure 0) (cleanup_v1 ex_dir_token_v1)) = []
   \<and> \<not> truthy (uploadToken ex_no_token_v2)
   \<and> requests_of cleanup_v2 ex_no_token_v2 = []
   \<and> log_text (cleanup_v2 ex_no_token_v2) = msg_nothing_to_clean @ newline
   \<and> truthy (uploadToken ex_upload_v2)
   \<and> requests_of cleanup_v2 ex_upload_v2 =
        [Post ''/api/cleanup'' (JsonBody [(''token'', Scalar (JStr ''tok''))])]
   \<and> uploadToken (step_v2 (Reply 0 ex_reply) (cleanup_v2 ex_upload_v2)) = JNull
   \<and> log_text (step_v2 (Reply 0 ex_reply) (cleanup_v2 ex_upload_v2)) = msg_cleaned @ newline
   \<and> uploadToken (step_v2 (Failure 0) (cleanup_v2 ex_upload_v2)) = JStr ''tok''
   \<and> log_text (step_v2 (Failure 0) (cleanup_v2 ex_upload_v2)) = []"
proof -
  have a: "uploadToken ex_folder_v1 = JNull" "uploadDirToken ex_folder_v1 = JNull"
    "log_text ex_folder_v1 = []"
    by (simp_all add: ex_folder_v1_def)
  have b: "uploadToken ex_dir_token_v1 = JNull" "uploadDirToken ex_dir_token_v1 = JStr ''tok''"
    "pending ex_dir_token_v1 = []" "log_text ex_dir_token_v1 = []"
    by (simp_all add: ex_dir_token_v1_def ex_folder_v1_def)
  have c: "uploadToken ex_no_token_v2 = JNull" "log_text ex_no_token_v2 = []"
    by (simp_all add: ex_no_token_v2_def ex_upload_v2_def)
  have d: "uploadToken ex_upload_v2 = JStr ''tok''" "pending ex_upload_v2 = []"
    "log_text ex_upload_v2 = []"
    by (simp_all add: ex_upload_v2_def)
  show ?thesis
    using cleanup_token_handling [of ex_folder_v1 ex_no_token_v2]
      cleanup_token_handling [of ex_dir_token_v1 ex_upload_v2]
    by (simp add: a b c d Let_def log_def)
qed

end
